theory Spec2Isabelle
  imports Complex_Main
begin

section \<open>JavaScript values\<close>

text \<open>
  A JavaScript string is the list of its UTF-16 code units, so \<open>length\<close> is the
  source's \<open>.length\<close>. \<open>str\<close> only writes a literal: it maps the characters of
  an Isabelle literal to their code units.
\<close>

type_synonym jsstring = "nat list"

definition str :: "string \<Rightarrow> jsstring" where
  "str s = map of_char s"

definition dquote :: nat where "dquote = 34"
definition comma :: nat where "comma = 44"
definition newline :: nat where "newline = 10"
definition creturn :: nat where "creturn = 13"
definition space :: nat where "space = 32"

text \<open>
  \<open>isWhiteSpace\<close> is the set that \<open>String.prototype.trim\<close> strips and that the
  regular expression class \<open>\s\<close> matches: ECMAScript's WhiteSpace and LineTerminator
  code units (tab, LF, VT, FF, CR, space, U+00A0, U+1680, U+2000 to U+200A, U+2028,
  U+2029, U+202F, U+205F, U+3000 and U+FEFF).
\<close>

definition isWhiteSpace :: "nat \<Rightarrow> bool" where
  "isWhiteSpace c \<longleftrightarrow>
     c \<in> set [9, 10, 11, 12, 13, 32, 160, 5760, 8232, 8233, 8239, 8287, 12288, 65279]
     \<or> (8192 \<le> c \<and> c \<le> 8202)"

definition trim :: "jsstring \<Rightarrow> jsstring" where
  "trim s = rev (dropWhile isWhiteSpace (rev (dropWhile isWhiteSpace s)))"

text \<open>\<open>s.includes(c)\<close> for a needle of one code unit.\<close>

definition includesUnit :: "jsstring \<Rightarrow> nat \<Rightarrow> bool" where
  "includesUnit s c \<longleftrightarrow> c \<in> set s"

text \<open>
  \<open>s.replace(/^"|"$/g, '')\<close>: the global replace removes a quote at index 0, and then
  a quote at the last index of what is left of the string (the second alternative can
  only match a unit the first did not consume).
\<close>

definition stripQuotes :: "jsstring \<Rightarrow> jsstring" where
  "stripQuotes s =
     (let t = (case s of [] \<Rightarrow> [] | c # r \<Rightarrow> if c = dquote then r else s)
      in if t \<noteq> [] \<and> last t = dquote then butlast t else t)"

text \<open>\<open>s.replace(/"/g, '""')\<close>: every quote is written twice.\<close>

fun doubleQuotes :: "jsstring \<Rightarrow> jsstring" where
  "doubleQuotes [] = []"
| "doubleQuotes (c # cs) =
     (if c = dquote then dquote # dquote # doubleQuotes cs else c # doubleQuotes cs)"

text \<open>
  \<open>s.replace(/\s+/g, ' ')\<close>: every maximal run of white space becomes one space. The
  flag says whether the unit before was white space (the run has its space already).
\<close>

fun collapseRuns :: "bool \<Rightarrow> jsstring \<Rightarrow> jsstring" where
  "collapseRuns inRun [] = []"
| "collapseRuns inRun (c # cs) =
     (if isWhiteSpace c
      then (if inRun then collapseRuns True cs else space # collapseRuns True cs)
      else c # collapseRuns False cs)"

text \<open>
  \<open>/^null$/i.test(s)\<close>: the whole string is \<open>null\<close> in any letter case (no
  \<open>m\<close> flag, so \<open>^\<close> and \<open>$\<close> are the ends of the string).
\<close>

definition isNullWord :: "jsstring \<Rightarrow> bool" where
  "isNullWord s \<longleftrightarrow>
     (case s of
        [n, u, l1, l2] \<Rightarrow>
          (n = 110 \<or> n = 78) \<and> (u = 117 \<or> u = 85) \<and>
          (l1 = 108 \<or> l1 = 76) \<and> (l2 = 108 \<or> l2 = 76)
      | _ \<Rightarrow> False)"

section \<open>The tabular reader (parseCSVLine and parseCSV, the same in every script)\<close>

text \<open>
  The loop of \<open>parseCSVLine\<close> over the units of the line, with its three variables.
  A quote only toggles \<open>inQuotes\<close> and is never copied; a comma outside quotes ends
  the field; a line feed outside quotes ends the field and the loop (\<open>break\<close>).
\<close>

fun parseCSVLine_loop ::
  "jsstring \<Rightarrow> jsstring list \<Rightarrow> jsstring \<Rightarrow> bool \<Rightarrow> jsstring list \<times> jsstring" where
  "parseCSVLine_loop [] out cur inQuotes = (out, cur)"
| "parseCSVLine_loop (c # cs) out cur inQuotes =
     (if c = dquote then parseCSVLine_loop cs out cur (\<not> inQuotes)
      else if (c = comma \<and> \<not> inQuotes) \<or> (c = newline \<and> \<not> inQuotes) then
        (if c = newline then (out @ [trim cur], [])
         else parseCSVLine_loop cs (out @ [trim cur]) [] inQuotes)
      else parseCSVLine_loop cs out (cur @ [c]) inQuotes)"

definition parseCSVLine :: "jsstring \<Rightarrow> jsstring list" where
  "parseCSVLine line =
     (case parseCSVLine_loop line [] [] False of
        (out, cur) \<Rightarrow> if cur \<noteq> [] then out @ [trim cur] else out)"

text \<open>
  \<open>text.split(/\r?\n/)\<close>: the text is cut at every line feed, and a carriage return
  right before the line feed belongs to the separator.
\<close>

fun splitLines :: "jsstring \<Rightarrow> jsstring \<Rightarrow> jsstring list" where
  "splitLines cur [] = [cur]"
| "splitLines cur [c] = (if c = newline then [cur, []] else [cur @ [c]])"
| "splitLines cur (c # d # cs) =
     (if c = newline then cur # splitLines [] (d # cs)
      else if c = creturn \<and> d = newline then cur # splitLines [] cs
      else splitLines (cur @ [c]) (d # cs))"

datatype js_error = TypeError

text \<open>
  A parsed row is the object \<open>row\<close> that \<open>header.forEach\<close> fills: \<open>row[h] = values[j] ?? ''\<close>
  for the \<open>j\<close>-th header name \<open>h\<close>, a later column of the same name overwriting an
  earlier one. \<open>rowOf\<close> gives the object as the map from its own keys to their
  values. A column named \<open>__proto__\<close> adds no key: the assignment of a string to
  \<open>row.__proto__\<close> goes to the prototype setter, which ignores it.
\<close>

fun rowOf :: "jsstring list \<Rightarrow> jsstring list \<Rightarrow> (jsstring \<rightharpoonup> jsstring)" where
  "rowOf [] vals = Map.empty"
| "rowOf (h # hs) vals =
     (\<lambda>k. case rowOf hs (tl vals) k of
            Some v \<Rightarrow> Some v
          | None \<Rightarrow>
              if k = h \<and> h \<noteq> str ''__proto__''
              then Some (case vals of [] \<Rightarrow> [] | v # _ \<Rightarrow> v) else None)"

text \<open>
  \<open>parseCSV\<close>: the lines are split first and the empty ones dropped
  (\<open>filter(Boolean)\<close>); with no line left, \<open>lines[0]\<close> is \<open>undefined\<close> and
  \<open>parseCSVLine\<close> throws a TypeError on \<open>line.length\<close>.
\<close>

definition parseCSV :: "jsstring \<Rightarrow> js_error + (jsstring \<rightharpoonup> jsstring) list" where
  "parseCSV txt =
     (case filter (\<lambda>l. l \<noteq> []) (splitLines [] txt) of
        [] \<Rightarrow> Inl TypeError
      | first # rest \<Rightarrow>
          (let header = parseCSVLine first
           in Inr (map (\<lambda>l. rowOf header (parseCSVLine l)) rest)))"

section \<open>The tabular writers\<close>

text \<open>
  \<open>escapeCsv\<close> of the export script (bars.json to bars-info.csv). The argument is
  \<open>None\<close> for \<open>null\<close> or \<open>undefined\<close> and otherwise the string \<open>String(val)\<close>.
\<close>

definition escapeCsv :: "jsstring option \<Rightarrow> jsstring" where
  "escapeCsv val =
     (case val of
        None \<Rightarrow> []
      | Some v \<Rightarrow>
          (let s = trim v
           in if includesUnit s comma \<or> includesUnit s dquote \<or> includesUnit s newline \<or> includesUnit s creturn
              then [dquote] @ doubleQuotes s @ [dquote]
              else s))"

text \<open>\<open>xs.join(sep)\<close> on strings.\<close>

fun joinWith :: "jsstring \<Rightarrow> jsstring list \<Rightarrow> jsstring" where
  "joinWith sep [] = []"
| "joinWith sep [x] = x"
| "joinWith sep (x # y # ys) = x @ sep @ joinWith sep (y # ys)"

definition BOM :: nat where "BOM = 65279"

text \<open>
  The file the export script writes: \<open>'\uFEFF' + csv\<close>, where \<open>csv\<close> is the header
  line and one line per bar, joined by line feeds. A bar is given by its eleven cells,
  each the argument of its \<open>escapeCsv\<close> call.
\<close>

definition exportHeader :: "jsstring list" where
  "exportHeader = map str [''id'', ''bar_name'', ''address'', ''correct_address'', ''lat'',
     ''lng'', ''price'', ''opening_hours'', ''dance_floor'', ''dance_notes'', ''last_updated'']"

definition exportCsv :: "jsstring option list list \<Rightarrow> jsstring" where
  "exportCsv bars =
     BOM # joinWith [newline]
       (joinWith [comma] exportHeader # map (\<lambda>cells. joinWith [comma] (map escapeCsv cells)) bars)"

text \<open>
  \<open>escape\<close> of the Places script (bars.json to bars-info-updated.csv). A cell that is a
  string is \<open>Some\<close> of it; \<open>None\<close> is \<open>null\<close> or \<open>undefined\<close>. It looks for a comma
  or a quote only, does not trim, and the file is written without a byte-order mark.
\<close>

definition escapePlaces :: "jsstring option \<Rightarrow> jsstring" where
  "escapePlaces v =
     (case v of
        None \<Rightarrow> []
      | Some s \<Rightarrow>
          if includesUnit s comma \<or> includesUnit s dquote
          then [dquote] @ doubleQuotes s @ [dquote]
          else s)"

definition placesCsv :: "jsstring option list list \<Rightarrow> jsstring" where
  "placesCsv bars =
     joinWith [newline]
       (str ''id,bar_name,address,correct_address,lat,lng,price,opening_hours,dance_floor,dance_notes,last_updated''
        # map (\<lambda>cells. joinWith [comma] (map escapePlaces cells)) bars)"

section \<open>Numbers, optional values and rows\<close>

text \<open>
  A JavaScript number: a finite double is written as the real number it denotes, so
  \<open>>=\<close> and \<open>===\<close> on finite numbers are the comparisons of the reals. A decimal
  literal of the source (59.31667, 18.06745, 4.2) stands for the double nearest to it;
  no double lies between 4.2 and that double, so \<open>rating >= 4.2\<close> is the comparison
  with the real 4.2 for every double \<open>rating\<close>.
\<close>

datatype number = Finite real | NaN | PlusInfinity | MinusInfinity

text \<open>\<open>!x\<close> is false: a number is truthy unless it is 0 or NaN.\<close>

fun truthyNum :: "number \<Rightarrow> bool" where
  "truthyNum (Finite x) = (x \<noteq> 0)"
| "truthyNum NaN = False"
| "truthyNum PlusInfinity = True"
| "truthyNum MinusInfinity = True"

text \<open>\<open>x >= t\<close> for a finite threshold \<open>t\<close>.\<close>

fun geNum :: "number \<Rightarrow> real \<Rightarrow> bool" where
  "geNum (Finite x) t = (t \<le> x)"
| "geNum NaN t = False"
| "geNum PlusInfinity t = True"
| "geNum MinusInfinity t = False"

text \<open>
  A field that holds a string, or is \<open>null\<close> or \<open>undefined\<close> (\<open>None\<close>). The
  empty string is falsy like \<open>None\<close>: \<open>jsOr a b\<close> is \<open>a || b\<close>, \<open>orEmpty a\<close> is
  \<open>a || ''\<close> and \<open>orNull s\<close> is \<open>s || null\<close>.
\<close>

definition truthyStr :: "jsstring option \<Rightarrow> bool" where
  "truthyStr v = (case v of None \<Rightarrow> False | Some s \<Rightarrow> s \<noteq> [])"

definition jsOr :: "jsstring option \<Rightarrow> jsstring option \<Rightarrow> jsstring option" where
  "jsOr a b = (if truthyStr a then a else b)"

definition orEmpty :: "jsstring option \<Rightarrow> jsstring" where
  "orEmpty a = (case a of None \<Rightarrow> [] | Some s \<Rightarrow> s)"

definition orNull :: "jsstring \<Rightarrow> jsstring option" where
  "orNull s = (if s = [] then None else Some s)"

text \<open>
  An input row, as the geocoding and Places scripts read it: the address and name keys
  are strings or absent. \<open>lat\<close> and \<open>lng\<close> hold what the script's first reading of
  the row gives, \<open>row.lat != null ? parseFloat(String(row.lat).replace(',', '.')) : null\<close>
  (in the Mapbox variant the test is \<open>row.lat ?\<close>): \<open>None\<close> for \<open>null\<close>. The keys
  that are only copied to the output (id, price, opening hours, dance notes, last
  update) are left out.
\<close>

record row =
  correct_address :: "jsstring option"
  location :: "jsstring option"
  address :: "jsstring option"
  bar_name :: "jsstring option"
  name :: "jsstring option"
  lat :: "number option"
  lng :: "number option"
  dance_floor :: "jsstring option"

text \<open>
  How the scripts find their input. \<open>InputMissing\<close>: \<open>fs.existsSync\<close> is false.
  \<open>InputUnparsable\<close>: the file is there and \<open>JSON.parse\<close> or \<open>parseCSV\<close> throws, which
  rejects \<open>main()\<close>, and its \<open>catch\<close> handler calls \<open>process.exit(1)\<close>.
  \<open>InputRows\<close>: the rows read.
\<close>

datatype 'r input = InputMissing | InputUnparsable | InputRows "'r list"

text \<open>
  A row of a bars.json that an earlier run of the Places script wrote has three more
  keys, \<open>place_id\<close>, \<open>photo_reference\<close> and \<open>vibes\<close>. The geocoding and Places
  scripts read none of them from the row, so their functions take a row with any
  further keys (\<open>'a row_scheme\<close>); \<open>stored_row\<close> names these three, to say what a
  run does to them.
\<close>

record stored_row = row +
  row_place_id :: "jsstring option"
  row_photo_reference :: "jsstring option"
  row_vibes :: "jsstring list option"

section \<open>Address resolution\<close>

text \<open>\<open>x.trim().replace(/^"|"$/g, '')\<close>, the cleanup of every address.\<close>

definition cleanAddress :: "jsstring \<Rightarrow> jsstring" where
  "cleanAddress s = stripQuotes (trim s)"

text \<open>Photon script, the address to geocode (\<open>location\<close> of its loop).\<close>

definition photonLocation :: "row \<Rightarrow> jsstring" where
  "photonLocation r =
     cleanAddress (orEmpty (jsOr (correct_address r) (jsOr (location r) (address r))))"

text \<open>\<open>correctAddr\<close> of the Photon and Places loops.\<close>

definition correctAddr :: "'a row_scheme \<Rightarrow> jsstring option" where
  "correctAddr r = orNull (cleanAddress (orEmpty (correct_address r)))"

text \<open>\<open>outAddress\<close> of the Photon loop (location before address).\<close>

definition photonOutAddress :: "row \<Rightarrow> jsstring option" where
  "photonOutAddress r =
     jsOr (correctAddr r) (orNull (cleanAddress (orEmpty (jsOr (location r) (address r)))))"

text \<open>\<open>outAddress\<close> of the Places loop (address before location).\<close>

definition placesOutAddress :: "'a row_scheme \<Rightarrow> jsstring option" where
  "placesOutAddress r =
     jsOr (correctAddr r) (orNull (cleanAddress (orEmpty (jsOr (address r) (location r)))))"

text \<open>The test before the lookup in the Photon loop.\<close>

definition worthGeocoding :: "jsstring \<Rightarrow> bool" where
  "worthGeocoding loc \<longleftrightarrow> loc \<noteq> [] \<and> length loc > 2 \<and> \<not> isNullWord loc"

text \<open>\<open>addressKey\<close>, on a string argument.\<close>

definition addressKey :: "jsstring \<Rightarrow> jsstring" where
  "addressKey loc = (if loc = [] then [] else collapseRuns False (trim loc))"

text \<open>\<open>(row.bar_name || row.name || 'Unknown').replace(/^"|"$/g, '')\<close>.\<close>

definition barNameOf :: "'a row_scheme \<Rightarrow> jsstring" where
  "barNameOf r =
     stripQuotes (case jsOr (bar_name r) (name r) of
                    None \<Rightarrow> str ''Unknown''
                  | Some s \<Rightarrow> if s = [] then str ''Unknown'' else s)"

section \<open>Tag derivation\<close>

text \<open>
  \<open>toLowerCase\<close> on the code units below 256. The source also lowers letters beyond
  U+00FF; none of them becomes a unit of \<open>yes\<close>, the only word a lowered string is
  compared with here.
\<close>

definition lowerUnit :: "nat \<Rightarrow> nat" where
  "lowerUnit c =
     (if (65 \<le> c \<and> c \<le> 90) \<or> (192 \<le> c \<and> c \<le> 222 \<and> c \<noteq> 215) then c + 32 else c)"

definition toLowerCase :: "jsstring \<Rightarrow> jsstring" where
  "toLowerCase s = map lowerUnit s"

text \<open>\<open>[...new Set(xs)]\<close>: the first occurrence of every element, in order.\<close>

fun uniq :: "'a list \<Rightarrow> 'a list" where
  "uniq [] = []"
| "uniq (x # xs) = x # uniq (filter (\<lambda>y. y \<noteq> x) xs)"

definition deriveVibes :: "'a row_scheme \<Rightarrow> number option \<Rightarrow> jsstring list" where
  "deriveVibes r rating =
     (let dance = toLowerCase (orEmpty (dance_floor r));
          v1 = (if dance = str ''yes'' then [str ''party'', str ''girls-night''] else []);
          v2 = (case rating of
                  None \<Rightarrow> v1
                | Some x \<Rightarrow> if geNum x 4.2 then v1 @ [str ''dating'', str ''chill''] else v1);
          v3 = (if v2 = [] then [str ''chill''] else v2)
      in uniq v3)"

section \<open>The Photon geocoding script\<close>

text \<open>
  What the remote service does with one request, as \<open>geocodePhoton\<close> sees it.
  \<open>PhotonThrows m\<close>: \<open>fetch\<close> rejects, the body is not JSON, or reading the first
  feature throws, with message \<open>m\<close>. \<open>PhotonNoResult\<close>: the answer has no feature
  with a coordinate pair. \<open>PhotonCoord x y\<close>: \<open>Number(coord[0])\<close> and
  \<open>Number(coord[1])\<close>, longitude first.
\<close>

datatype photon_response = PhotonThrows jsstring | PhotonNoResult | PhotonCoord number number

text \<open>
  The lines of \<open>console.error\<close> and \<open>console.warn\<close>: the three fatal ones (input
  not found, a credential not set, an error that rejects \<open>main\<close>), and the ones
  written while a record is processed, with the record's number and name where the
  source prints them.
\<close>

datatype logline =
    InputNotFound
  | CredentialMissing jsstring
  | Uncaught
  | GeocodeError jsstring
  | InvalidKeyNotice
  | LookupError nat jsstring jsstring
  | PlacesWarning nat jsstring jsstring
  | OpenAIWarning nat jsstring jsstring

text \<open>
  \<open>geocodePhoton\<close>. The service is a parameter: its answer to the query. The result
  is the returned pair (\<open>None\<close> for \<open>null\<close>), whether a request was sent, and the
  lines written by \<open>console.error\<close>. \<open>includesStr a p\<close> is \<open>a.includes(p)\<close>.
\<close>

fun includesStr :: "jsstring \<Rightarrow> jsstring \<Rightarrow> bool" where
  "includesStr [] pat = (pat = [])"
| "includesStr (c # cs) pat = (take (length pat) (c # cs) = pat \<or> includesStr cs pat)"

definition stockholmQuery :: "jsstring \<Rightarrow> jsstring" where
  "stockholmQuery a =
     (if includesStr a (str ''Stockholm'') then a else a @ str '', Stockholm, Sweden'')"

definition geocodePhoton ::
  "(jsstring \<Rightarrow> photon_response) \<Rightarrow> jsstring \<Rightarrow> bool
     \<Rightarrow> (number \<times> number) option \<times> bool \<times> logline list" where
  "geocodePhoton service a logFirst =
     (if a = [] \<or> trim a = [] \<or> isNullWord a then (None, False, [])
      else (case service (stockholmQuery a) of
              PhotonThrows m \<Rightarrow> (None, True, if logFirst then [GeocodeError m] else [])
            | PhotonNoResult \<Rightarrow> (None, True, [])
            | PhotonCoord x y \<Rightarrow> (Some (x, y), True, [])))"

text \<open>
  An entry of the written bars.json, with the keys the properties below speak of.
\<close>

record entry =
  e_bar_name :: jsstring
  e_location :: "jsstring option"
  e_lat :: "number option"
  e_lng :: "number option"
  e_correct_address :: "jsstring option"

text \<open>
  The state of the loop in \<open>main\<close>: \<open>coordCache\<close> (insertion order, one pair per
  key, holding \<open>{lng, lat}\<close>), the bars pushed so far, and two observations of the run:
  every request sent to the service (the address given to \<open>geocodePhoton\<close> and what
  it returned) and the lines of \<open>console.error\<close>.
\<close>

record photon_state =
  coordCache :: "(jsstring \<times> number \<times> number) list"
  ph_bars :: "entry list"
  ph_requests :: "(jsstring \<times> (number \<times> number) option) list"
  ph_errors :: "logline list"

text \<open>
  One pass of the loop body, for the row of index \<open>i\<close>. The service may answer every
  row differently: \<open>service i\<close> is its answer while row \<open>i\<close> is processed.
\<close>

definition photonRow ::
  "(nat \<Rightarrow> jsstring \<Rightarrow> photon_response) \<Rightarrow> nat \<Rightarrow> row \<Rightarrow> photon_state \<Rightarrow> photon_state" where
  "photonRow service i r st =
     (let loc = photonLocation r;
          st1 =
            (if worthGeocoding loc then
               (let key = addressKey loc
                in if key \<notin> fst ` set (coordCache st) then
                     (case geocodePhoton (service i) loc (coordCache st = []) of
                        (center, sent, msgs) \<Rightarrow>
                          st\<lparr>coordCache :=
                               (case center of
                                  None \<Rightarrow> coordCache st
                                | Some (x, y) \<Rightarrow> coordCache st @ [(key, x, y)]),
                             ph_requests := ph_requests st @ (if sent then [(loc, center)] else []),
                             ph_errors := ph_errors st @ msgs\<rparr>)
                   else st)
             else st);
          cached = (if worthGeocoding loc then map_of (coordCache st1) (addressKey loc) else None);
          e = \<lparr>e_bar_name = barNameOf r,
               e_location = photonOutAddress r,
               e_lat = (case cached of None \<Rightarrow> lat r | Some (x, y) \<Rightarrow> Some y),
               e_lng = (case cached of None \<Rightarrow> lng r | Some (x, y) \<Rightarrow> Some x),
               e_correct_address = correctAddr r\<rparr>
      in st1\<lparr>ph_bars := ph_bars st1 @ [e]\<rparr>)"

fun photonLoop ::
  "(nat \<Rightarrow> jsstring \<Rightarrow> photon_response) \<Rightarrow> nat \<Rightarrow> row list \<Rightarrow> photon_state \<Rightarrow> photon_state" where
  "photonLoop service i [] st = st"
| "photonLoop service i (r # rs) st = photonLoop service (Suc i) rs (photonRow service i r st)"

text \<open>
  What a run leaves behind: the exit status (\<open>process.exit(1)\<close>, or 0 when \<open>main\<close>
  returns), the array written to bars.json (\<open>None\<close> when \<open>writeFileSync\<close> was never
  reached, so the file is as it was), the requests sent and the lines of
  \<open>console.error\<close> and \<open>console.warn\<close> (the progress lines of \<open>console.log\<close> are
  not recorded).
\<close>

record ('e, 'q) outcome =
  exit_status :: nat
  written :: "'e list option"
  sent :: "'q list"
  logged :: "logline list"

type_synonym geo_request = "jsstring \<times> (number \<times> number) option"

definition photonMain ::
  "(nat \<Rightarrow> jsstring \<Rightarrow> photon_response) \<Rightarrow> row input \<Rightarrow> (entry, geo_request) outcome" where
  "photonMain service inp =
     (case inp of
        InputMissing \<Rightarrow> \<lparr>exit_status = 1, written = None, sent = [], logged = [InputNotFound]\<rparr>
      | InputUnparsable \<Rightarrow> \<lparr>exit_status = 1, written = None, sent = [], logged = [Uncaught]\<rparr>
      | InputRows rows \<Rightarrow>
          (let st = photonLoop service 0 rows
                      \<lparr>coordCache = [], ph_bars = [], ph_requests = [], ph_errors = []\<rparr>
           in \<lparr>exit_status = 0, written = Some (ph_bars st), sent = ph_requests st,
                logged = ph_errors st\<rparr>))"

section \<open>The Mapbox geocoding script\<close>

text \<open>
  The service as \<open>geocode\<close> sees it: the request throws (swallowed by the empty
  \<open>catch\<close>), the answer has no feature with a center, or the first feature's center,
  longitude first.
\<close>

datatype mapbox_response = MapboxThrows | MapboxNoFeature | MapboxCenter number number

definition geocode ::
  "(jsstring \<Rightarrow> mapbox_response) \<Rightarrow> jsstring \<Rightarrow> jsstring
     \<Rightarrow> (number \<times> number) option \<times> bool" where
  "geocode service a token =
     (if a = [] \<or> token = [] \<or> a = str ''null'' then (None, False)
      else (case service (stockholmQuery a) of
              MapboxThrows \<Rightarrow> (None, True)
            | MapboxNoFeature \<Rightarrow> (None, True)
            | MapboxCenter x y \<Rightarrow> (Some (x, y), True)))"

text \<open>
  The coordinates the script treats as the placeholder of the city centre:
  \<open>lat === 59.31667 && lng === 18.06745\<close>.
\<close>

definition isPlaceholder :: "number option \<Rightarrow> number option \<Rightarrow> bool" where
  "isPlaceholder la lo \<longleftrightarrow> la = Some (Finite 59.31667) \<and> lo = Some (Finite 18.06745)"

text \<open>\<open>!lat\<close> on a number or \<open>null\<close>.\<close>

definition falsyCoord :: "number option \<Rightarrow> bool" where
  "falsyCoord v = (case v of None \<Rightarrow> True | Some x \<Rightarrow> \<not> truthyNum x)"

definition mapboxNeedsLookup :: "jsstring \<Rightarrow> number option \<Rightarrow> number option \<Rightarrow> bool" where
  "mapboxNeedsLookup loc la lo \<longleftrightarrow>
     loc \<noteq> [] \<and> (falsyCoord la \<or> falsyCoord lo \<or> isPlaceholder la lo)"

record mapbox_state =
  m_bars :: "entry list"
  m_requests :: "(jsstring \<times> (number \<times> number) option) list"

text \<open>
  The loop body, for the row of index \<open>i\<close>: the lookup (its result and whether a
  request was sent), the object pushed to \<open>bars\<close>, and the pass over the state.
\<close>

definition mapboxLookup ::
  "(nat \<Rightarrow> jsstring \<Rightarrow> mapbox_response) \<Rightarrow> jsstring \<Rightarrow> nat \<Rightarrow> row
     \<Rightarrow> (number \<times> number) option \<times> bool" where
  "mapboxLookup service token i r =
     (let loc = cleanAddress (orEmpty (location r))
      in if mapboxNeedsLookup loc (lat r) (lng r) then geocode (service i) loc token
         else (None, False))"

definition mapboxEntry ::
  "(nat \<Rightarrow> jsstring \<Rightarrow> mapbox_response) \<Rightarrow> jsstring \<Rightarrow> nat \<Rightarrow> row \<Rightarrow> entry" where
  "mapboxEntry service token i r =
     (let loc = cleanAddress (orEmpty (location r));
          center = fst (mapboxLookup service token i r)
      in \<lparr>e_bar_name = barNameOf r,
          e_location = orNull loc,
          e_lat = (case center of None \<Rightarrow> lat r | Some (x, y) \<Rightarrow> Some y),
          e_lng = (case center of None \<Rightarrow> lng r | Some (x, y) \<Rightarrow> Some x),
          e_correct_address = None\<rparr>)"

definition mapboxRow ::
  "(nat \<Rightarrow> jsstring \<Rightarrow> mapbox_response) \<Rightarrow> jsstring \<Rightarrow> nat \<Rightarrow> row \<Rightarrow> mapbox_state
     \<Rightarrow> mapbox_state" where
  "mapboxRow service token i r st =
     (let res = mapboxLookup service token i r
      in \<lparr>m_bars = m_bars st @ [mapboxEntry service token i r],
          m_requests = m_requests st
            @ (if snd res then [(cleanAddress (orEmpty (location r)), fst res)] else [])\<rparr>)"

fun mapboxLoop ::
  "(nat \<Rightarrow> jsstring \<Rightarrow> mapbox_response) \<Rightarrow> jsstring \<Rightarrow> nat \<Rightarrow> row list \<Rightarrow> mapbox_state
     \<Rightarrow> mapbox_state" where
  "mapboxLoop service token i [] st = st"
| "mapboxLoop service token i (r # rs) st =
     mapboxLoop service token (Suc i) rs (mapboxRow service token i r st)"

text \<open>
  \<open>main\<close> of the Mapbox variant: the token (empty when \<open>getToken\<close> finds none) is
  tested first, then the input file.
\<close>

definition mapboxMain ::
  "(nat \<Rightarrow> jsstring \<Rightarrow> mapbox_response) \<Rightarrow> jsstring \<Rightarrow> row input \<Rightarrow> (entry, geo_request) outcome" where
  "mapboxMain service token inp =
     (if token = [] then
        \<lparr>exit_status = 1, written = None, sent = [],
         logged = [CredentialMissing (str ''MAPBOX_TOKEN'')]\<rparr>
      else (case inp of
              InputMissing \<Rightarrow>
                \<lparr>exit_status = 1, written = None, sent = [], logged = [InputNotFound]\<rparr>
            | InputUnparsable \<Rightarrow>
                \<lparr>exit_status = 1, written = None, sent = [], logged = [Uncaught]\<rparr>
            | InputRows rows \<Rightarrow>
                (let st = mapboxLoop service token 0 rows \<lparr>m_bars = [], m_requests = []\<rparr>
                 in \<lparr>exit_status = 0, written = Some (m_bars st), sent = m_requests st,
                      logged = []\<rparr>)))"

section \<open>The Places script\<close>

text \<open>
  What \<open>findPlaceFromText\<close> gives for one query. \<open>PlaceThrows k m\<close>: it throws an error
  with message \<open>m\<close> (\<open>fetch\<close> rejects, or the status is neither OK nor ZERO_RESULTS);
  \<open>k\<close> says that \<open>e.code\<close> is INVALID_API_KEY. \<open>PlaceNone\<close>: no candidate,
  \<open>null\<close>. \<open>PlaceFound\<close>: the object built from the first candidate.
\<close>

record place =
  formatted_address :: "jsstring option"
  p_lat :: "number option"
  p_lng :: "number option"
  place_id :: "jsstring option"

datatype place_result = PlaceThrows bool jsstring | PlaceNone | PlaceFound place

text \<open>
  What \<open>getPlaceDetails\<close> gives: it throws, it returns \<open>null\<close> (status not OK), or
  the photo reference and the rating.
\<close>

datatype details_result = DetailsThrows | DetailsNull | Details "jsstring option" "number option"

record places_entry = entry +
  e_place_id :: "jsstring option"
  e_photo_reference :: "jsstring option"
  e_vibes :: "jsstring list"

datatype places_request = FindPlace jsstring | PlaceDetails jsstring

record places_state =
  p_bars :: "places_entry list"
  p_log :: "logline list"
  p_requests :: "places_request list"
  updated :: nat
  failed :: nat
  invalidKeyReported :: bool

text \<open>\<open>v || null\<close> on a string or \<open>null\<close>.\<close>

definition nullIfFalsy :: "jsstring option \<Rightarrow> jsstring option" where
  "nullIfFalsy v = (if truthyStr v then v else None)"

text \<open>The query: the bar's name and \<open>, S\<close>\<open>\<dots>\<close>\<open>dermalm, Stockholm\<close> (U+00F6 is 246).\<close>

definition placesQuery :: "jsstring \<Rightarrow> jsstring" where
  "placesQuery barName = barName @ str '', S'' @ [246] @ str ''dermalm, Stockholm''"

text \<open>
  The loop body of \<open>main\<close>, for the row of index \<open>i\<close>. \<open>placeOf\<close> is the variable
  \<open>place\<close> after the \<open>try\<close> (\<open>null\<close> when the lookup threw or found nothing),
  \<open>placesEntry\<close> the object pushed to \<open>bars\<close>, and \<open>placesRow\<close> the whole pass
  over the state.
\<close>

definition placeOf :: "place_result \<Rightarrow> place option" where
  "placeOf res = (case res of PlaceFound p \<Rightarrow> Some p | _ \<Rightarrow> None)"

text \<open>\<open>place?.formatted_address && place.lat != null && place.lng != null\<close>.\<close>

definition placeUsable :: "place option \<Rightarrow> bool" where
  "placeUsable pl =
     (case pl of
        None \<Rightarrow> False
      | Some p \<Rightarrow> truthyStr (formatted_address p) \<and> p_lat p \<noteq> None \<and> p_lng p \<noteq> None)"

definition placesEntry ::
  "(nat \<Rightarrow> jsstring \<Rightarrow> place_result) \<Rightarrow> (nat \<Rightarrow> jsstring \<Rightarrow> details_result)
     \<Rightarrow> nat \<Rightarrow> 'a row_scheme \<Rightarrow> places_entry" where
  "placesEntry findPlace details i r =
     (let barName = barNameOf r;
          pl = placeOf (findPlace i (placesQuery barName));
          fa = (case pl of None \<Rightarrow> None | Some p \<Rightarrow> nullIfFalsy (formatted_address p));
          pid = (case pl of None \<Rightarrow> None | Some p \<Rightarrow> nullIfFalsy (place_id p));
          la = (case pl of None \<Rightarrow> lat r | Some p \<Rightarrow> if placeUsable pl then p_lat p else lat r);
          lo = (case pl of None \<Rightarrow> lng r | Some p \<Rightarrow> if placeUsable pl then p_lng p else lng r);
          finalAddress = orNull (trim (orEmpty (jsOr fa (jsOr (correctAddr r) (placesOutAddress r)))));
          det = (case pid of None \<Rightarrow> None | Some p \<Rightarrow> Some (details i p));
          photo = (case det of Some (Details ph rt) \<Rightarrow> nullIfFalsy ph | _ \<Rightarrow> None);
          placeRating = (case det of Some (Details ph rt) \<Rightarrow> rt | _ \<Rightarrow> None)
      in \<lparr>e_bar_name = barName,
          e_location = nullIfFalsy (jsOr finalAddress (placesOutAddress r)),
          e_lat = la,
          e_lng = lo,
          e_correct_address = fa,
          e_place_id = pid,
          e_photo_reference = photo,
          e_vibes = deriveVibes r placeRating\<rparr>)"

definition placesRow ::
  "(nat \<Rightarrow> jsstring \<Rightarrow> place_result) \<Rightarrow> (nat \<Rightarrow> jsstring \<Rightarrow> details_result)
     \<Rightarrow> nat \<Rightarrow> 'a row_scheme \<Rightarrow> places_state \<Rightarrow> places_state" where
  "placesRow findPlace details i r st =
     (let barName = barNameOf r;
          query = placesQuery barName;
          res = findPlace i query;
          pl = placeOf res;
          fa = (case pl of None \<Rightarrow> None | Some p \<Rightarrow> nullIfFalsy (formatted_address p));
          pid = (case pl of None \<Rightarrow> None | Some p \<Rightarrow> nullIfFalsy (place_id p))
      in \<lparr>p_bars = p_bars st @ [placesEntry findPlace details i r],
          p_log = p_log st
            @ (case res of
                 PlaceThrows k m \<Rightarrow>
                   (if k \<and> \<not> invalidKeyReported st then [InvalidKeyNotice] else [])
                   @ [LookupError (i + 1) barName m]
               | _ \<Rightarrow> []),
          p_requests = p_requests st @ [FindPlace query]
            @ (case pid of None \<Rightarrow> [] | Some p \<Rightarrow> [PlaceDetails p]),
          updated = (if placeUsable pl \<and> (correctAddr r = None \<or> correctAddr r \<noteq> fa)
                     then updated st + 1 else updated st),
          failed = (case res of PlaceThrows k m \<Rightarrow> failed st + 1 | _ \<Rightarrow> failed st),
          invalidKeyReported =
            (case res of PlaceThrows k m \<Rightarrow> invalidKeyReported st \<or> k
             | _ \<Rightarrow> invalidKeyReported st)\<rparr>)"

fun placesLoop ::
  "(nat \<Rightarrow> jsstring \<Rightarrow> place_result) \<Rightarrow> (nat \<Rightarrow> jsstring \<Rightarrow> details_result)
     \<Rightarrow> nat \<Rightarrow> 'a row_scheme list \<Rightarrow> places_state \<Rightarrow> places_state" where
  "placesLoop findPlace details i [] st = st"
| "placesLoop findPlace details i (r # rs) st =
     placesLoop findPlace details (Suc i) rs (placesRow findPlace details i r st)"

text \<open>
  \<open>main\<close>: the key (empty when \<open>getApiKey\<close> finds none) is tested first, then the
  input. Both files, bars.json and bars-info-updated.csv, are written after the loop;
  \<open>csv_written\<close> says whether the second was.
\<close>

record ('e, 'q) places_outcome = "('e, 'q) outcome" +
  csv_written :: bool
  lookups_failed :: nat

definition placesAbort :: "logline \<Rightarrow> (places_entry, places_request) places_outcome" where
  "placesAbort line = \<lparr>exit_status = 1, written = None, sent = [], logged = [line],
                        csv_written = False, lookups_failed = 0\<rparr>"

definition placesMain ::
  "(nat \<Rightarrow> jsstring \<Rightarrow> place_result) \<Rightarrow> (nat \<Rightarrow> jsstring \<Rightarrow> details_result)
     \<Rightarrow> jsstring \<Rightarrow> 'a row_scheme input
     \<Rightarrow> (places_entry, places_request) places_outcome" where
  "placesMain findPlace details apiKey inp =
     (if apiKey = [] then placesAbort (CredentialMissing (str ''GOOGLE_PLACES_API_KEY''))
      else (case inp of
              InputMissing \<Rightarrow> placesAbort InputNotFound
            | InputUnparsable \<Rightarrow> placesAbort Uncaught
            | InputRows rows \<Rightarrow>
                (let st = placesLoop findPlace details 0 rows
                            \<lparr>p_bars = [], p_log = [], p_requests = [], updated = 0, failed = 0,
                             invalidKeyReported = False\<rparr>
                 in \<lparr>exit_status = 0, written = Some (p_bars st), sent = p_requests st,
                      logged = p_log st, csv_written = True, lookups_failed = failed st\<rparr>)))"

section \<open>The mood categorization script\<close>

text \<open>A value read from JSON, or \<open>undefined\<close> for a key the object does not have.\<close>

datatype jsval =
    JUndefined
  | JNull
  | JBool bool
  | JNum number
  | JStr jsstring
  | JArr "jsval list"
  | JObj "(jsstring \<times> jsval) list"

fun truthy :: "jsval \<Rightarrow> bool" where
  "truthy JUndefined = False"
| "truthy JNull = False"
| "truthy (JBool b) = b"
| "truthy (JNum n) = truthyNum n"
| "truthy (JStr s) = (s \<noteq> [])"
| "truthy (JArr xs) = True"
| "truthy (JObj kvs) = True"

text \<open>
  What is in the file for a value: \<open>JSON.stringify\<close> writes \<open>null\<close> for a number
  that is not finite and for \<open>undefined\<close> inside an array, and leaves out a key whose
  value is \<open>undefined\<close>. \<open>stringified v\<close> is the value read back for an array element
  or a nested value \<open>v\<close>, \<open>fileValue v\<close> the value read back for a key of a bar.
\<close>

fun finiteNum :: "number \<Rightarrow> bool" where
  "finiteNum (Finite x) = True"
| "finiteNum n = False"

fun stringified :: "jsval \<Rightarrow> jsval" where
  "stringified (JNum n) = (if finiteNum n then JNum n else JNull)"
| "stringified (JArr xs) = JArr (map stringified xs)"
| "stringified (JObj kvs) =
     JObj (map (\<lambda>kv. (fst kv, stringified (snd kv))) (filter (\<lambda>kv. snd kv \<noteq> JUndefined) kvs))"
| "stringified JUndefined = JNull"
| "stringified v = v"

definition fileValue :: "jsval \<Rightarrow> jsval" where
  "fileValue v = (if v = JUndefined then JUndefined else stringified v)"

text \<open>\<open>Array.isArray\<close>.\<close>

fun isArray :: "jsval \<Rightarrow> bool" where
  "isArray (JArr xs) = True"
| "isArray v = False"

definition MOODS :: "jsstring list" where
  "MOODS = map str [''first_date'', ''third_date'', ''chill_date'', ''party_night'',
     ''chill_hangout'', ''group_friends'', ''cheap_night_out'']"

text \<open>\<open>MOODS.includes(m)\<close>: only a string can be equal to a slug.\<close>

fun isMood :: "jsval \<Rightarrow> bool" where
  "isMood (JStr s) = (s \<in> set MOODS)"
| "isMood v = False"

text \<open>
  What the classification request gives, as \<open>classifyBarWithOpenAI\<close> sees it.
  \<open>OpenAIThrows m\<close>: \<open>fetch\<close> rejects, the status is not ok, or the body cannot be
  read, and the function throws. \<open>OpenAINoArray\<close>: the content has no bracketed part.
  \<open>OpenAIBadJson\<close>: \<open>JSON.parse\<close> of the bracketed part throws. \<open>OpenAIParsed v\<close>:
  the value \<open>JSON.parse\<close> returns.
\<close>

datatype openai_response = OpenAIThrows jsstring | OpenAINoArray | OpenAIBadJson | OpenAIParsed jsval

definition classifyBarWithOpenAI :: "openai_response \<Rightarrow> jsstring + jsval list" where
  "classifyBarWithOpenAI resp =
     (case resp of
        OpenAIThrows m \<Rightarrow> Inl m
      | OpenAINoArray \<Rightarrow> Inr []
      | OpenAIBadJson \<Rightarrow> Inr []
      | OpenAIParsed v \<Rightarrow> (case v of JArr arr \<Rightarrow> Inr (filter isMood arr) | _ \<Rightarrow> Inr []))"

text \<open>
  A bar of the store, with what the loop reads and writes: the name used in the log
  lines (\<open>bar.bar_name || bar.name || bar.id || 'Unknown'\<close>), \<open>place_id\<close> and
  \<open>moods\<close>. Every other key of the object is written back as it was read.
\<close>

record mood_bar =
  mb_name :: jsstring
  mb_place_id :: "jsstring option"
  moods :: jsval

datatype reviews_result = ReviewsThrows jsstring | ReviewsNull | Reviews "jsstring list"

datatype mood_request = FetchReviews jsstring | Classify nat

record mood_state =
  c_bars :: "mood_bar list"
  c_log :: "logline list"
  c_requests :: "mood_request list"
  c_done :: nat
  c_failed :: nat

text \<open>\<open>bar.moods || []\<close>.\<close>

definition moodsOrEmpty :: "jsval \<Rightarrow> jsval" where
  "moodsOrEmpty v = (if truthy v then v else JArr [])"

text \<open>
  The loop body of \<open>main\<close>, for the bar of index \<open>i\<close>: \<open>moodBar\<close> is the bar
  after the assignment to \<open>bar.moods\<close> in the \<open>try\<close> or in the \<open>catch\<close>, and
  \<open>moodRow\<close> the whole pass over the state.
\<close>

definition moodBar :: "(nat \<Rightarrow> openai_response) \<Rightarrow> nat \<Rightarrow> mood_bar \<Rightarrow> mood_bar" where
  "moodBar openai i bar =
     (case classifyBarWithOpenAI (openai i) of
        Inr ms \<Rightarrow> bar\<lparr>moods := (if ms \<noteq> [] then JArr ms else moodsOrEmpty (moods bar))\<rparr>
      | Inl m \<Rightarrow> bar\<lparr>moods := moodsOrEmpty (moods bar)\<rparr>)"

definition moodRow ::
  "(nat \<Rightarrow> jsstring \<Rightarrow> reviews_result) \<Rightarrow> (nat \<Rightarrow> openai_response)
     \<Rightarrow> nat \<Rightarrow> mood_bar \<Rightarrow> mood_state \<Rightarrow> mood_state" where
  "moodRow reviews openai i bar st =
     (let placeId = nullIfFalsy (mb_place_id bar);
          warn1 = (case placeId of
                     None \<Rightarrow> []
                   | Some p \<Rightarrow>
                       (case reviews i p of
                          ReviewsThrows m \<Rightarrow> [PlacesWarning (i + 1) (mb_name bar) m]
                        | _ \<Rightarrow> []));
          req1 = (case placeId of None \<Rightarrow> [] | Some p \<Rightarrow> [FetchReviews p]);
          res = classifyBarWithOpenAI (openai i)
      in \<lparr>c_bars = c_bars st @ [moodBar openai i bar],
          c_log = c_log st @ warn1
            @ (case res of Inl m \<Rightarrow> [OpenAIWarning (i + 1) (mb_name bar) m] | Inr ms \<Rightarrow> []),
          c_requests = c_requests st @ req1 @ [Classify i],
          c_done = (case res of Inl m \<Rightarrow> c_done st | Inr ms \<Rightarrow> c_done st + 1),
          c_failed = (case res of Inl m \<Rightarrow> c_failed st + 1 | Inr ms \<Rightarrow> c_failed st)\<rparr>)"

fun moodLoop ::
  "(nat \<Rightarrow> jsstring \<Rightarrow> reviews_result) \<Rightarrow> (nat \<Rightarrow> openai_response)
     \<Rightarrow> nat \<Rightarrow> mood_bar list \<Rightarrow> mood_state \<Rightarrow> mood_state" where
  "moodLoop reviews openai i [] st = st"
| "moodLoop reviews openai i (b # bs) st =
     moodLoop reviews openai (Suc i) bs (moodRow reviews openai i b st)"

text \<open>
  \<open>main\<close>: the two keys are tested first (empty when \<open>getEnvKey\<close> finds none), then
  the store. The list is written back to the store after the loop; \<open>written\<close> holds
  the bars as the file has them: \<open>storedBar b\<close> is the bar \<open>b\<close> with the \<open>moods\<close>
  that \<open>JSON.stringify\<close> writes for the value assigned in the loop.
\<close>

definition storedBar :: "mood_bar \<Rightarrow> mood_bar" where
  "storedBar b = b\<lparr>moods := fileValue (moods b)\<rparr>"

definition moodMain ::
  "(nat \<Rightarrow> jsstring \<Rightarrow> reviews_result) \<Rightarrow> (nat \<Rightarrow> openai_response)
     \<Rightarrow> jsstring \<Rightarrow> jsstring \<Rightarrow> mood_bar input \<Rightarrow> (mood_bar, mood_request) outcome" where
  "moodMain reviews openai googleKey openaiKey inp =
     (if googleKey = [] then
        \<lparr>exit_status = 1, written = None, sent = [],
         logged = [CredentialMissing (str ''GOOGLE_PLACES_API_KEY'')]\<rparr>
      else if openaiKey = [] then
        \<lparr>exit_status = 1, written = None, sent = [],
         logged = [CredentialMissing (str ''OPENAI_API_KEY'')]\<rparr>
      else (case inp of
              InputMissing \<Rightarrow>
                \<lparr>exit_status = 1, written = None, sent = [], logged = [InputNotFound]\<rparr>
            | InputUnparsable \<Rightarrow>
                \<lparr>exit_status = 1, written = None, sent = [], logged = [Uncaught]\<rparr>
            | InputRows list \<Rightarrow>
                (let st = moodLoop reviews openai 0 list
                            \<lparr>c_bars = [], c_log = [], c_requests = [], c_done = 0, c_failed = 0\<rparr>
                 in \<lparr>exit_status = 0,
                      written = Some (map storedBar (c_bars st)),
                      sent = c_requests st, logged = c_log st\<rparr>)))"

section \<open>The invariant of the Photon loop\<close>

text \<open>
  Used in the proofs only. \<open>succeeded reqs\<close> are the keys of the requests that
  returned a coordinate. The loop keeps \<open>memo_inv\<close>: every such key is in the cache,
  and a request that is followed by a request for the same key returned \<open>null\<close>.
\<close>

definition succeeded :: "(jsstring \<times> (number \<times> number) option) list \<Rightarrow> jsstring set" where
  "succeeded reqs = {addressKey a | a c. (a, Some c) \<in> set reqs}"

definition memo_inv :: "photon_state \<Rightarrow> bool" where
  "memo_inv st \<longleftrightarrow>
     succeeded (ph_requests st) \<subseteq> fst ` set (coordCache st)
     \<and> (\<forall>i j. i < j \<and> j < length (ph_requests st)
              \<and> addressKey (fst (ph_requests st ! i)) = addressKey (fst (ph_requests st ! j))
            \<longrightarrow> snd (ph_requests st ! i) = None)"

section \<open>The field format of the tabular interchange, as the specification words it\<close>

text \<open>
  The specification's format for a field: a value that needs escaping is "quoted with
  doubled internal quotes". \<open>specDecodeField\<close> reads a field of that format back: a
  field inside quotes stands for its inside with every doubled quote taken as one
  quote, any other field for itself. It is the yardstick for the writer and the reader
  of the source, not a function of the source.
\<close>

fun undouble :: "jsstring \<Rightarrow> jsstring" where
  "undouble (a # b # cs) =
     (if a = dquote \<and> b = dquote then dquote # undouble cs else a # undouble (b # cs))"
| "undouble cs = cs"

definition specDecodeField :: "jsstring \<Rightarrow> jsstring" where
  "specDecodeField f =
     (if 2 \<le> length f \<and> hd f = dquote \<and> last f = dquote then undouble (butlast (tl f)) else f)"

section \<open>Evaluation of literals\<close>

lemma str_simps: "str [] = []" "str (c # cs) = of_char c # str cs"
  by (simp_all add: str_def)

lemmas units = dquote_def comma_def newline_def creturn_def space_def

lemmas string_ops = trim_def isWhiteSpace_def stripQuotes_def includesUnit_def cleanAddress_def

section \<open>Tag derivation (C5)\<close>

lemma deriveVibes_table:
  "deriveVibes r rating =
     (if toLowerCase (orEmpty (dance_floor r)) = str ''yes''
      then (if (case rating of None \<Rightarrow> False | Some x \<Rightarrow> geNum x 4.2)
            then map str [''party'', ''girls-night'', ''dating'', ''chill'']
            else map str [''party'', ''girls-night''])
      else (if (case rating of None \<Rightarrow> False | Some x \<Rightarrow> geNum x 4.2)
            then map str [''dating'', ''chill'']
            else map str [''chill'']))"
  by (simp add: deriveVibes_def Let_def str_simps split: option.splits)

lemma lower_yes: "toLowerCase (str ''yes'') = str ''yes''" "toLowerCase (str ''no'') \<noteq> str ''yes''"
  by (simp_all add: toLowerCase_def lowerUnit_def str_simps)

text \<open>
  C5, as stated, fails on the letter case: the dance floor is lowered before it is
  compared, so a row whose \<open>dance_floor\<close> is \<open>Yes\<close>, which is not equal to
  \<open>yes\<close>, gets party and girls-night and not the default.
\<close>

theorem deriveVibes_yes_in_capitals:
  "dance_floor \<lparr>correct_address = None, location = None, address = None,
      bar_name = Some (str ''Kvarnen''), name = None, lat = None, lng = None,
      dance_floor = Some (str ''Yes'')\<rparr> \<noteq> Some (str ''yes'')
   \<and> deriveVibes \<lparr>correct_address = None, location = None, address = None,
      bar_name = Some (str ''Kvarnen''), name = None, lat = None, lng = None,
      dance_floor = Some (str ''Yes'')\<rparr> None = map str [''party'', ''girls-night'']"
  by (simp add: deriveVibes_def toLowerCase_def lowerUnit_def orEmpty_def str_simps)

text \<open>
  C5, amended. \<open>deriveVibes\<close> returns exactly the list of the rule table: a dance
  floor that is \<open>yes\<close> in any letter case gives party and girls-night, a rating that
  is present and at least 4.2 gives dating and chill, and chill alone is the default
  when neither rule fires. The result has no duplicate and at most four tags, and it
  is a function of the row's dance floor and the rating only, so running it again on
  the same record and signal gives the same list. The two scenarios of the
  specification are the last two conjuncts.
\<close>

theorem deriveVibes_rule_table:
  "deriveVibes r rating =
     (if toLowerCase (orEmpty (dance_floor r)) = str ''yes''
      then (if (case rating of None \<Rightarrow> False | Some x \<Rightarrow> geNum x 4.2)
            then map str [''party'', ''girls-night'', ''dating'', ''chill'']
            else map str [''party'', ''girls-night''])
      else (if (case rating of None \<Rightarrow> False | Some x \<Rightarrow> geNum x 4.2)
            then map str [''dating'', ''chill'']
            else map str [''chill'']))
   \<and> distinct (deriveVibes r rating)
   \<and> length (deriveVibes r rating) \<le> 4
   \<and> deriveVibes (r\<lparr>dance_floor := Some (str ''yes'')\<rparr>) None = map str [''party'', ''girls-night'']
   \<and> deriveVibes (r\<lparr>dance_floor := Some (str ''no'')\<rparr>) None = map str [''chill'']"
proof -
  have "distinct (deriveVibes r rating)"
    by (simp add: deriveVibes_table str_simps)
  moreover have "length (deriveVibes r rating) \<le> 4"
    by (simp add: deriveVibes_table)
  moreover have "deriveVibes (r\<lparr>dance_floor := Some (str ''yes'')\<rparr>) None
      = map str [''party'', ''girls-night'']"
    by (simp add: deriveVibes_table orEmpty_def lower_yes)
  moreover have "deriveVibes (r\<lparr>dance_floor := Some (str ''no'')\<rparr>) None = map str [''chill'']"
    by (simp add: deriveVibes_table orEmpty_def lower_yes)
  ultimately show ?thesis
    using deriveVibes_table [of r rating] by simp
qed

section \<open>The tabular export (C7)\<close>

lemma undouble_doubleQuotes: "undouble (doubleQuotes s) = s"
proof (induction s)
  case Nil
  then show ?case by simp
next
  case (Cons c s)
  show ?case
  proof (cases "c = dquote")
    case True
    with Cons show ?thesis by simp
  next
    case False
    with Cons show ?thesis by (cases "doubleQuotes s") auto
  qed
qed

lemma escapeCsv_cases:
  "escapeCsv (Some v) =
     (if set (trim v) \<inter> {comma, dquote, newline, creturn} \<noteq> {}
      then [dquote] @ doubleQuotes (trim v) @ [dquote] else trim v)"
  by (auto simp add: escapeCsv_def Let_def includesUnit_def)

lemma decode_escapeCsv: "specDecodeField (escapeCsv (Some v)) = trim v"
proof (cases "set (trim v) \<inter> {comma, dquote, newline, creturn} \<noteq> {}")
  case True
  then show ?thesis
    by (simp add: escapeCsv_cases specDecodeField_def undouble_doubleQuotes butlast_append)
next
  case False
  then have nq: "dquote \<notin> set (trim v)" by auto
  have "hd (trim v) \<noteq> dquote \<or> trim v = []"
    using nq hd_in_set by metis
  then have "\<not> (2 \<le> length (trim v) \<and> hd (trim v) = dquote \<and> last (trim v) = dquote)"
    by auto
  then have "specDecodeField (trim v) = trim v"
    unfolding specDecodeField_def by presburger
  with False show ?thesis by (simp only: escapeCsv_cases if_False)
qed

lemma escapeCsv_scenario:
  \<open>escapeCsv (Some (str ''O'Learys, "Best" bar'')) = str ''"O'Learys, ""Best"" bar"''\<close>
  by (simp add: escapeCsv_def str_simps units string_ops)

text \<open>
  The Places script's own \<open>escape\<close> is not the export script's \<open>escapeCsv\<close>: it does
  not look for a line feed, and its file does not start with the byte-order mark.
\<close>

lemma escapePlaces_newline_unquoted:
  \<open>escapePlaces (Some (str ''Live\<newline>DJ'')) = str ''Live\<newline>DJ''
   \<and> hd (placesCsv []) = of_char CHR ''i''\<close>
  by (simp add: escapePlaces_def placesCsv_def str_simps units string_ops)

text \<open>
  C7, as stated, fails on \<open>escapeCsv\<close>: the value is trimmed before it is examined, so
  a value whose only line feed is at its end contains a newline and is written without
  quotes.
\<close>

theorem escapeCsv_trailing_newline_unquoted:
  \<open>newline \<in> set (str ''Live DJ\<newline>'')
   \<and> escapeCsv (Some (str ''Live DJ\<newline>'')) = str ''Live DJ''
   \<and> hd (escapeCsv (Some (str ''Live DJ\<newline>''))) \<noteq> dquote\<close>
  by (simp add: escapeCsv_def str_simps units string_ops)

text \<open>
  C7, amended. In the export script a \<open>null\<close> or \<open>undefined\<close> value is the empty
  field; any other value is trimmed first; the trimmed value is written inside quotes
  with every quote of it doubled when it contains a comma, a quote, a line feed or a
  carriage return, and as it is otherwise. Either way the field written decodes to the
  trimmed value in the specification's format. The file starts with the byte-order
  mark, and the specification's scenario holds.
\<close>

theorem escapeCsv_quoting:
  \<open>escapeCsv None = []
   \<and> escapeCsv (Some v) =
       (if set (trim v) \<inter> {comma, dquote, newline, creturn} \<noteq> {}
        then [dquote] @ doubleQuotes (trim v) @ [dquote] else trim v)
   \<and> specDecodeField (escapeCsv (Some v)) = trim v
   \<and> exportCsv bs \<noteq> [] \<and> hd (exportCsv bs) = BOM
   \<and> escapeCsv (Some (str ''O'Learys, "Best" bar'')) = str ''"O'Learys, ""Best"" bar"''\<close>
proof -
  have "escapeCsv None = []"
    by (simp add: escapeCsv_def)
  moreover have "exportCsv bs \<noteq> [] \<and> hd (exportCsv bs) = BOM"
    by (simp add: exportCsv_def)
  ultimately show ?thesis
    using escapeCsv_cases [of v] decode_escapeCsv [of v] escapeCsv_scenario by simp
qed

section \<open>The tabular reader (C4)\<close>

text \<open>
  C4. The reader does keep a comma inside quotes in its field and trims every field,
  but a quote is never copied: the field the export script writes for
  \<open>O'Learys, "Best" bar\<close> is read back without its quotes. And \<open>parseCSV\<close> cuts the
  text at every line feed before any quote is looked at, so a quoted field with a line
  feed inside becomes the end of one row and the start of another.
\<close>

theorem parseCSV_drops_quotes_and_splits_quoted_newline:
  \<open>parseCSVLine (str ''Kvarnen,"Tj 4, Stockholm", yes '')
     = [str ''Kvarnen'', str ''Tj 4, Stockholm'', str ''yes'']
   \<and> parseCSVLine (escapeCsv (Some (str ''O'Learys, "Best" bar''))) = [str ''O'Learys, Best bar'']
   \<and> (case parseCSV (str ''bar_name,dance_notes\<newline>Kvarnen,"Live\<newline>DJ"\<newline>'') of
        Inl e \<Rightarrow> []
      | Inr rows \<Rightarrow> map (\<lambda>r. [r (str ''bar_name''), r (str ''dance_notes'')]) rows)
     = [[Some (str ''Kvarnen''), Some (str ''Live'')], [Some (str ''DJ''), Some []]]\<close>
  by (simp add: parseCSV_def parseCSVLine_def escapeCsv_def str_simps units string_ops)

section \<open>Address resolution (C1)\<close>

lemma trim_Nil: "trim [] = []"
  by (simp add: trim_def)

















lemma photonRow_entry:
  "last (ph_bars (photonRow service i r st)) =
     \<lparr>e_bar_name = barNameOf r,
      e_location = photonOutAddress r,
      e_lat = (case (if worthGeocoding (photonLocation r)
                     then map_of (coordCache (photonRow service i r st))
                            (addressKey (photonLocation r))
                     else None) of None \<Rightarrow> lat r | Some (x, y) \<Rightarrow> Some y),
      e_lng = (case (if worthGeocoding (photonLocation r)
                     then map_of (coordCache (photonRow service i r st))
                            (addressKey (photonLocation r))
                     else None) of None \<Rightarrow> lng r | Some (x, y) \<Rightarrow> Some x),
      e_correct_address = correctAddr r\<rparr>"
  by (simp add: photonRow_def Let_def split: prod.splits)













section \<open>The loops write one entry per row\<close>

lemma upt_shift: "[i..<i + Suc n] = i # [Suc i..<Suc i + n]"
  by (simp add: upt_conv_Cons del: upt_Suc)

lemma indexed_nth:
  "j < length xs \<Longrightarrow> map (\<lambda>(k, x). f k x) (zip [i..<i + length xs] xs) ! j = f (i + j) (xs ! j)"
  by simp

lemma moodRow_bars: "c_bars (moodRow rv oa i b st) = c_bars st @ [moodBar oa i b]"
  by (simp add: moodRow_def Let_def)

lemma moodLoop_bars:
  "c_bars (moodLoop rv oa i bs st)
     = c_bars st @ map (\<lambda>(j, b). moodBar oa j b) (zip [i..<i + length bs] bs)"
proof (induction bs arbitrary: i st)
  case Nil
  then show ?case by simp
next
  case (Cons b bs)
  have "c_bars (moodLoop rv oa i (b # bs) st)
          = c_bars (moodRow rv oa i b st)
              @ map (\<lambda>(j, b). moodBar oa j b) (zip [Suc i..<Suc i + length bs] bs)"
    using Cons.IH [of "Suc i" "moodRow rv oa i b st"] by simp
  moreover have "[i..<i + length (b # bs)] = i # [Suc i..<Suc i + length bs]"
    using upt_shift [of i "length bs"] by simp
  ultimately show ?case
    by (simp only: moodRow_bars zip_Cons_Cons list.map prod.case append_assoc append_Cons
        append_Nil)
qed

lemma moodMain_written:
  assumes "gk \<noteq> []" "ok \<noteq> []"
  shows "written (moodMain rv oa gk ok (InputRows list))
           = Some (map (\<lambda>(j, b). storedBar (moodBar oa j b)) (zip [0..<length list] list))"
  using assms moodLoop_bars [of rv oa 0 list]
  by (simp add: moodMain_def Let_def case_prod_unfold)

lemma placesRow_bars: "p_bars (placesRow f d i r st) = p_bars st @ [placesEntry f d i r]"
  by (simp add: placesRow_def Let_def)

lemma placesLoop_bars:
  "p_bars (placesLoop f d i rows st)
     = p_bars st @ map (\<lambda>(j, r). placesEntry f d j r) (zip [i..<i + length rows] rows)"
proof (induction rows arbitrary: i st)
  case Nil
  then show ?case by simp
next
  case (Cons r rows)
  have "p_bars (placesLoop f d i (r # rows) st)
          = p_bars (placesRow f d i r st)
              @ map (\<lambda>(j, r). placesEntry f d j r) (zip [Suc i..<Suc i + length rows] rows)"
    using Cons.IH [of "Suc i" "placesRow f d i r st"] by simp
  moreover have "[i..<i + length (r # rows)] = i # [Suc i..<Suc i + length rows]"
    using upt_shift [of i "length rows"] by simp
  ultimately show ?case
    by (simp only: placesRow_bars zip_Cons_Cons list.map prod.case append_assoc append_Cons
        append_Nil)
qed

text \<open>The lines of the error log that one row contributes, the key notice apart.\<close>

lemma placesRow_log:
  "removeAll InvalidKeyNotice (p_log (placesRow f d i r st))
     = removeAll InvalidKeyNotice (p_log st)
       @ (case f i (placesQuery (barNameOf r)) of
            PlaceThrows k m \<Rightarrow> [LookupError (i + 1) (barNameOf r) m]
          | _ \<Rightarrow> [])"
  by (simp add: placesRow_def Let_def split: place_result.splits)

lemma placesLoop_log:
  "removeAll InvalidKeyNotice (p_log (placesLoop f d i rows st))
     = removeAll InvalidKeyNotice (p_log st)
       @ concat (map (\<lambda>(j, r). case f j (placesQuery (barNameOf r)) of
                                  PlaceThrows k m \<Rightarrow> [LookupError (j + 1) (barNameOf r) m]
                                | _ \<Rightarrow> [])
                     (zip [i..<i + length rows] rows))"
proof (induction rows arbitrary: i st)
  case Nil
  then show ?case by simp
next
  case (Cons r rows)
  have "[i..<i + length (r # rows)] = i # [Suc i..<Suc i + length rows]"
    using upt_shift [of i "length rows"] by simp
  then show ?case
    using Cons.IH [of "Suc i" "placesRow f d i r st"]
    by (simp only: placesLoop.simps placesRow_log zip_Cons_Cons list.map prod.case concat.simps
        append_assoc)
qed

lemma placesEntry_keeps:
  "\<not> placeUsable (placeOf (f i (placesQuery (barNameOf r))))
   \<Longrightarrow> e_lat (placesEntry f d i r) = lat r \<and> e_lng (placesEntry f d i r) = lng r"
  by (auto simp add: placesEntry_def Let_def split: option.splits)

lemma placesEntry_overwrites:
  "placeOf (f i (placesQuery (barNameOf r))) = Some p \<Longrightarrow> placeUsable (Some p)
   \<Longrightarrow> e_lat (placesEntry f d i r) = p_lat p \<and> e_lng (placesEntry f d i r) = p_lng p"
  by (simp add: placesEntry_def Let_def split: option.splits)

lemma mapboxRow_bars: "m_bars (mapboxRow svc t i r st) = m_bars st @ [mapboxEntry svc t i r]"
  by (simp add: mapboxRow_def Let_def)

lemma mapboxLoop_bars:
  "m_bars (mapboxLoop svc t i rows st)
     = m_bars st @ map (\<lambda>(j, r). mapboxEntry svc t j r) (zip [i..<i + length rows] rows)"
proof (induction rows arbitrary: i st)
  case Nil
  then show ?case by simp
next
  case (Cons r rows)
  have "m_bars (mapboxLoop svc t i (r # rows) st)
          = m_bars (mapboxRow svc t i r st)
              @ map (\<lambda>(j, r). mapboxEntry svc t j r) (zip [Suc i..<Suc i + length rows] rows)"
    using Cons.IH [of "Suc i" "mapboxRow svc t i r st"] by simp
  moreover have "[i..<i + length (r # rows)] = i # [Suc i..<Suc i + length rows]"
    using upt_shift [of i "length rows"] by simp
  ultimately show ?case
    by (simp only: mapboxRow_bars zip_Cons_Cons list.map prod.case append_assoc append_Cons
        append_Nil)
qed

lemma mapboxEntry_good_kept:
  "\<not> falsyCoord (lat r) \<Longrightarrow> \<not> falsyCoord (lng r) \<Longrightarrow> \<not> isPlaceholder (lat r) (lng r)
   \<Longrightarrow> mapboxLookup svc t i r = (None, False)
       \<and> e_lat (mapboxEntry svc t i r) = lat r \<and> e_lng (mapboxEntry svc t i r) = lng r"
  by (simp add: mapboxEntry_def mapboxLookup_def mapboxNeedsLookup_def Let_def)

lemma mapboxEntry_miss_kept:
  "\<forall>x y. svc i (stockholmQuery (cleanAddress (orEmpty (location r)))) \<noteq> MapboxCenter x y
   \<Longrightarrow> e_lat (mapboxEntry svc t i r) = lat r \<and> e_lng (mapboxEntry svc t i r) = lng r"
  by (simp add: mapboxEntry_def mapboxLookup_def geocode_def Let_def split: mapbox_response.splits)

lemma photonRow_bars_length:
  "length (ph_bars (photonRow svc i r st)) = Suc (length (ph_bars st))"
  by (simp add: photonRow_def Let_def split: prod.splits)

lemma photonLoop_bars_length:
  "length (ph_bars (photonLoop svc i rows st)) = length (ph_bars st) + length rows"
  by (induction rows arbitrary: i st) (simp_all add: photonRow_bars_length)


section \<open>Mood classification (C3, C10)\<close>

lemma classify_only_moods:
  assumes "classifyBarWithOpenAI resp = Inr ms" "m \<in> set ms"
  shows "\<exists>s \<in> set MOODS. m = JStr s"
proof -
  have "isMood m"
    using assms
    by (auto simp add: classifyBarWithOpenAI_def split: openai_response.splits jsval.splits)
  then show ?thesis by (cases m) auto
qed

lemma moodBar_kept:
  "classifyBarWithOpenAI (oa i) = Inr [] \<or> (\<exists>m. classifyBarWithOpenAI (oa i) = Inl m)
   \<Longrightarrow> moods (moodBar oa i bar) = (if truthy (moods bar) then moods bar else JArr [])"
  by (auto simp add: moodBar_def moodsOrEmpty_def)

lemma moodBar_truthy: "truthy (moods (moodBar oa i bar))"
  by (simp add: moodBar_def moodsOrEmpty_def split: sum.splits)

lemma moodBar_array:
  "isArray (moods bar) \<or> \<not> truthy (moods bar) \<Longrightarrow> isArray (moods (moodBar oa i bar))"
  by (auto simp add: moodBar_def moodsOrEmpty_def split: sum.splits)

lemma stringified_moods: "\<forall>v \<in> set xs. isMood v \<Longrightarrow> map stringified xs = xs"
proof (induction xs)
  case Nil
  then show ?case by simp
next
  case (Cons v xs)
  then have "isMood v" by simp
  then have "stringified v = v" by (cases v) simp_all
  with Cons show ?case by simp
qed

lemma fileValue_labels: "fileValue (JArr (filter isMood arr)) = JArr (filter isMood arr)"
  using stringified_moods [of "filter isMood arr"] by (simp add: fileValue_def)

lemma fileValue_strings:
  "fileValue (JStr s) = JStr s" "fileValue (JArr (map JStr ss)) = JArr (map JStr ss)"
  by (simp_all add: fileValue_def comp_def)

lemma isMood_slugs:
  "isMood v \<longleftrightarrow>
     v \<in> set (map (\<lambda>s. JStr (str s))
               [''first_date'', ''third_date'', ''chill_date'', ''party_night'',
                ''chill_hangout'', ''group_friends'', ''cheap_night_out''])"
  by (cases v) (auto simp add: MOODS_def)

lemma classify_cases:
  "classifyBarWithOpenAI (OpenAIThrows m) = Inl m"
  "classifyBarWithOpenAI OpenAINoArray = Inr []"
  "classifyBarWithOpenAI OpenAIBadJson = Inr []"
  "\<not> isArray v \<Longrightarrow> classifyBarWithOpenAI (OpenAIParsed v) = Inr []"
  "classifyBarWithOpenAI (OpenAIParsed (JArr arr)) = Inr (filter isMood arr)"
  by (auto simp add: classifyBarWithOpenAI_def split: jsval.splits)

lemma moodBar_assigned:
  "classifyBarWithOpenAI (oa i) = Inr ms \<Longrightarrow> ms \<noteq> [] \<Longrightarrow> moods (moodBar oa i bar) = JArr ms"
  by (simp add: moodBar_def)

lemma moodBar_other_keys:
  "mb_name (moodBar oa i bar) = mb_name bar" "mb_place_id (moodBar oa i bar) = mb_place_id bar"
  by (simp_all add: moodBar_def split: sum.splits)

lemma moodMain_nth:
  assumes "gk \<noteq> []" "ok \<noteq> []" "j < length list"
  shows "\<exists>bs. written (moodMain rv oa gk ok (InputRows list)) = Some bs
           \<and> length bs = length list
           \<and> bs ! j = storedBar (moodBar oa j (list ! j))"
  using moodMain_written [OF assms(1,2), of rv oa list]
    indexed_nth [OF assms(3), of "\<lambda>j b. storedBar (moodBar oa j b)" 0]
  by simp

text \<open>
  C3, as stated, fails where the record had no usable \<open>moods\<close> before: with \<open>moods\<close>
  \<open>null\<close>, or with the key absent, and every returned label discarded, \<open>moods\<close> is
  the empty array afterwards.
\<close>

theorem moods_null_becomes_empty_array:
  "classifyBarWithOpenAI (OpenAIParsed (JArr [JStr (str ''romantic'')])) = Inr []
   \<and> moods (moodBar (\<lambda>i. OpenAIParsed (JArr [JStr (str ''romantic'')])) 0
        \<lparr>mb_name = str ''Kvarnen'', mb_place_id = None, moods = JNull\<rparr>) = JArr []
   \<and> moods (moodBar (\<lambda>i. OpenAIParsed (JArr [JStr (str ''romantic'')])) 0
        \<lparr>mb_name = str ''Kvarnen'', mb_place_id = None, moods = JUndefined\<rparr>) = JArr []"
  by (simp add: moodBar_def classifyBarWithOpenAI_def moodsOrEmpty_def MOODS_def str_simps)

text \<open>
  C3, amended. Every label that \<open>classifyBarWithOpenAI\<close> returns is one of the seven
  slugs, and a value is kept as a label exactly when it is one of the seven strings: of
  a parsed array the function keeps exactly the elements that are slugs, and for a
  parsed value that is no array, for a content without a bracketed part and for a part
  that is no JSON it returns the empty list. When it returns a list that is not empty,
  that list is assigned to \<open>moods\<close>. When it returns the empty list or throws, a prior
  \<open>moods\<close> value that is truthy (any array, the empty one too) is left as it was, and a
  prior value that is absent, \<open>null\<close> or otherwise falsy becomes the empty array. The
  name and the place reference of the bar are not touched. The store written by a run
  holds, at every index, the bar so treated, with \<open>moods\<close> as \<open>JSON.stringify\<close> writes
  it: the list of valid labels where there is one, and a string or an array of strings
  as it is.
\<close>

theorem mood_labels_validated:
  "(classifyBarWithOpenAI resp = Inr ms \<longrightarrow> (\<forall>m \<in> set ms. \<exists>s \<in> set MOODS. m = JStr s))
   \<and> (isMood v \<longleftrightarrow>
        v \<in> set (map (\<lambda>s. JStr (str s))
                  [''first_date'', ''third_date'', ''chill_date'', ''party_night'',
                   ''chill_hangout'', ''group_friends'', ''cheap_night_out'']))
   \<and> classifyBarWithOpenAI (OpenAIParsed (JArr arr)) = Inr (filter isMood arr)
   \<and> (\<not> isArray v \<longrightarrow> classifyBarWithOpenAI (OpenAIParsed v) = Inr [])
   \<and> classifyBarWithOpenAI OpenAINoArray = Inr []
   \<and> classifyBarWithOpenAI OpenAIBadJson = Inr []
   \<and> classifyBarWithOpenAI (OpenAIThrows msg) = Inl msg
   \<and> (classifyBarWithOpenAI (oa i) = Inr ls \<and> ls \<noteq> [] \<longrightarrow>
        moods (moodBar oa i bar) = JArr ls)
   \<and> (classifyBarWithOpenAI (oa i) = Inr [] \<or> (\<exists>m. classifyBarWithOpenAI (oa i) = Inl m) \<longrightarrow>
        moods (moodBar oa i bar) = (if truthy (moods bar) then moods bar else JArr []))
   \<and> mb_name (moodBar oa i bar) = mb_name bar
   \<and> mb_place_id (moodBar oa i bar) = mb_place_id bar
   \<and> (gk \<noteq> [] \<and> ok \<noteq> [] \<and> j < length list \<longrightarrow>
        (\<exists>bs. written (moodMain rv oa gk ok (InputRows list)) = Some bs
           \<and> length bs = length list
           \<and> bs ! j = storedBar (moodBar oa j (list ! j))
           \<and> mb_name (bs ! j) = mb_name (list ! j)
           \<and> mb_place_id (bs ! j) = mb_place_id (list ! j)
           \<and> (oa j = OpenAIParsed (JArr arr) \<and> filter isMood arr \<noteq> [] \<longrightarrow>
                moods (bs ! j) = JArr (filter isMood arr))
           \<and> (classifyBarWithOpenAI (oa j) = Inr []
                \<or> (\<exists>m. classifyBarWithOpenAI (oa j) = Inl m) \<longrightarrow>
                moods (bs ! j)
                  = fileValue (if truthy (moods (list ! j)) then moods (list ! j) else JArr []))))
   \<and> fileValue (JStr s) = JStr s
   \<and> fileValue (JArr (map JStr ss)) = JArr (map JStr ss)"
proof -
  have run: "gk \<noteq> [] \<and> ok \<noteq> [] \<and> j < length list \<longrightarrow>
        (\<exists>bs. written (moodMain rv oa gk ok (InputRows list)) = Some bs
           \<and> length bs = length list
           \<and> bs ! j = storedBar (moodBar oa j (list ! j))
           \<and> mb_name (bs ! j) = mb_name (list ! j)
           \<and> mb_place_id (bs ! j) = mb_place_id (list ! j)
           \<and> (oa j = OpenAIParsed (JArr arr) \<and> filter isMood arr \<noteq> [] \<longrightarrow>
                moods (bs ! j) = JArr (filter isMood arr))
           \<and> (classifyBarWithOpenAI (oa j) = Inr []
                \<or> (\<exists>m. classifyBarWithOpenAI (oa j) = Inl m) \<longrightarrow>
                moods (bs ! j)
                  = fileValue (if truthy (moods (list ! j)) then moods (list ! j) else JArr [])))"
  proof
    assume h: "gk \<noteq> [] \<and> ok \<noteq> [] \<and> j < length list"
    then obtain bs where w: "written (moodMain rv oa gk ok (InputRows list)) = Some bs"
      and l: "length bs = length list"
      and n: "bs ! j = storedBar (moodBar oa j (list ! j))"
      using moodMain_nth [of gk ok j list rv oa] by blast
    have k: "mb_name (bs ! j) = mb_name (list ! j)"
      "mb_place_id (bs ! j) = mb_place_id (list ! j)"
      using n moodBar_other_keys [of oa j "list ! j"] by (simp_all add: storedBar_def)
    have a: "moods (bs ! j) = JArr (filter isMood arr)"
      if "oa j = OpenAIParsed (JArr arr) \<and> filter isMood arr \<noteq> []"
    proof -
      from that have "classifyBarWithOpenAI (oa j) = Inr (filter isMood arr)"
        by (simp add: classify_cases)
      with that have "moods (moodBar oa j (list ! j)) = JArr (filter isMood arr)"
        using moodBar_assigned [of oa j "filter isMood arr" "list ! j"] by simp
      with n show ?thesis by (simp add: storedBar_def fileValue_labels)
    qed
    have b: "moods (bs ! j)
               = fileValue (if truthy (moods (list ! j)) then moods (list ! j) else JArr [])"
      if "classifyBarWithOpenAI (oa j) = Inr [] \<or> (\<exists>m. classifyBarWithOpenAI (oa j) = Inl m)"
      using n that moodBar_kept [of oa j "list ! j"] by (simp add: storedBar_def)
    from w l n k a b show "\<exists>bs. written (moodMain rv oa gk ok (InputRows list)) = Some bs
           \<and> length bs = length list
           \<and> bs ! j = storedBar (moodBar oa j (list ! j))
           \<and> mb_name (bs ! j) = mb_name (list ! j)
           \<and> mb_place_id (bs ! j) = mb_place_id (list ! j)
           \<and> (oa j = OpenAIParsed (JArr arr) \<and> filter isMood arr \<noteq> [] \<longrightarrow>
                moods (bs ! j) = JArr (filter isMood arr))
           \<and> (classifyBarWithOpenAI (oa j) = Inr []
                \<or> (\<exists>m. classifyBarWithOpenAI (oa j) = Inl m) \<longrightarrow>
                moods (bs ! j)
                  = fileValue (if truthy (moods (list ! j)) then moods (list ! j) else JArr []))"
      by blast
  qed
  have c1: "classifyBarWithOpenAI resp = Inr ms \<longrightarrow> (\<forall>m \<in> set ms. \<exists>s \<in> set MOODS. m = JStr s)"
    using classify_only_moods [of resp ms] by blast
  have c2: "classifyBarWithOpenAI (oa i) = Inr ls \<and> ls \<noteq> [] \<longrightarrow>
        moods (moodBar oa i bar) = JArr ls"
    using moodBar_assigned [of oa i ls bar] by blast
  have c3: "classifyBarWithOpenAI (oa i) = Inr [] \<or> (\<exists>m. classifyBarWithOpenAI (oa i) = Inl m) \<longrightarrow>
        moods (moodBar oa i bar) = (if truthy (moods bar) then moods bar else JArr [])"
    using moodBar_kept [of oa i bar] by blast
  have c4: "\<not> isArray v \<longrightarrow> classifyBarWithOpenAI (OpenAIParsed v) = Inr []"
    using classify_cases(4) [of v] by blast
  from c1 isMood_slugs [of v] classify_cases(5) [of arr] c4 classify_cases(2) classify_cases(3)
    classify_cases(1) [of msg] c2 c3 moodBar_other_keys [of oa i bar] run
    fileValue_strings(1) [of s] fileValue_strings(2) [of ss]
  show ?thesis by (intro conjI)
qed

text \<open>
  A classification that returns two slugs among other values; a store of three bars,
  the first classified with a slug and an unknown label, the second with an unknown
  label only, the third with a request that throws.
\<close>

theorem mood_labels_validated_witness:
  "classifyBarWithOpenAI
       (OpenAIParsed (JArr [JStr (str ''first_date''), JStr (str ''romantic''), JNull,
                            JStr (str ''cheap_night_out'')]))
     = Inr [JStr (str ''first_date''), JStr (str ''cheap_night_out'')]
   \<and> \<not> isMood (JStr (str ''romantic'')) \<and> isMood (JStr (str ''group_friends''))
   \<and> classifyBarWithOpenAI (OpenAIParsed (JStr (str ''first_date''))) = Inr []
   \<and> moods (moodBar (\<lambda>i. OpenAIParsed (JArr [JStr (str ''party_night''),
                                                JStr (str ''romantic'')])) 0
        \<lparr>mb_name = str ''Kvarnen'', mb_place_id = None,
         moods = JArr [JStr (str ''chill_date'')]\<rparr>)
     = JArr [JStr (str ''party_night'')]
   \<and> written (moodMain (\<lambda>i p. ReviewsNull)
        (\<lambda>i. if i = 0 then OpenAIParsed (JArr [JStr (str ''party_night''), JStr (str ''romantic'')])
             else if i = 1 then OpenAIParsed (JArr [JStr (str ''romantic'')])
             else OpenAIThrows (str ''OpenAI 500''))
        (str ''g'') (str ''o'')
        (InputRows [\<lparr>mb_name = str ''Kvarnen'', mb_place_id = None,
                     moods = JArr [JStr (str ''chill_date'')]\<rparr>,
                    \<lparr>mb_name = str ''Pet Sounds'', mb_place_id = Some (str ''p1''),
                     moods = JArr [JStr (str ''chill_date'')]\<rparr>,
                    \<lparr>mb_name = str ''Snotty'', mb_place_id = None,
                     moods = JArr [JStr (str ''third_date'')]\<rparr>]))
     = Some [\<lparr>mb_name = str ''Kvarnen'', mb_place_id = None,
              moods = JArr [JStr (str ''party_night'')]\<rparr>,
             \<lparr>mb_name = str ''Pet Sounds'', mb_place_id = Some (str ''p1''),
              moods = JArr [JStr (str ''chill_date'')]\<rparr>,
             \<lparr>mb_name = str ''Snotty'', mb_place_id = None,
              moods = JArr [JStr (str ''third_date'')]\<rparr>]"
  using mood_labels_validated
    [where resp = "OpenAIParsed (JArr [JStr (str ''first_date''), JStr (str ''romantic''), JNull,
                            JStr (str ''cheap_night_out'')])"
       and ms = "[JStr (str ''first_date''), JStr (str ''cheap_night_out'')]"
       and v = "JStr (str ''first_date'')"
       and arr = "[JStr (str ''party_night''), JStr (str ''romantic'')]"
       and msg = "str ''OpenAI 500''"
       and oa = "\<lambda>i. if i = 0 then OpenAIParsed (JArr [JStr (str ''party_night''), JStr (str ''romantic'')])
             else if i = 1 then OpenAIParsed (JArr [JStr (str ''romantic'')])
             else OpenAIThrows (str ''OpenAI 500'')"
       and i = 0
       and ls = "[JStr (str ''party_night'')]"
       and bar = "\<lparr>mb_name = str ''Kvarnen'', mb_place_id = None,
                     moods = JArr [JStr (str ''chill_date'')]\<rparr>"
       and gk = "str ''g''" and ok = "str ''o''" and j = 0
       and list = "[\<lparr>mb_name = str ''Kvarnen'', mb_place_id = None,
                     moods = JArr [JStr (str ''chill_date'')]\<rparr>,
                    \<lparr>mb_name = str ''Pet Sounds'', mb_place_id = Some (str ''p1''),
                     moods = JArr [JStr (str ''chill_date'')]\<rparr>,
                    \<lparr>mb_name = str ''Snotty'', mb_place_id = None,
                     moods = JArr [JStr (str ''third_date'')]\<rparr>]"
       and rv = "\<lambda>i p. ReviewsNull" and s = "str ''party_night''" and ss = "[str ''chill_date'']"]
  by (simp add: classifyBarWithOpenAI_def MOODS_def moodMain_def moodRow_def moodBar_def
      moodsOrEmpty_def storedBar_def fileValue_def nullIfFalsy_def truthyStr_def Let_def str_simps)


lemma fileValue_array: "isArray v \<Longrightarrow> isArray (fileValue v)"
  by (cases v) (simp_all add: fileValue_def)

text \<open>
  What does hold of the written store: one bar for every bar read, whose \<open>moods\<close> is an
  array whenever the bar's \<open>moods\<close> was an array, absent, \<open>null\<close> or otherwise falsy
  before the run, whatever the two services do.
\<close>

lemma moods_array_unless_truthy_non_array:
  assumes "gk \<noteq> []" "ok \<noteq> []" "j < length list"
    "isArray (moods (list ! j)) \<or> \<not> truthy (moods (list ! j))"
  shows "\<exists>bs. written (moodMain rv oa gk ok (InputRows list)) = Some bs
           \<and> length bs = length list \<and> isArray (moods (bs ! j))"
proof -
  obtain bs where w: "written (moodMain rv oa gk ok (InputRows list)) = Some bs"
    and l: "length bs = length list"
    and n: "bs ! j = storedBar (moodBar oa j (list ! j))"
    using moodMain_nth [OF assms(1,2,3), of rv oa] by blast
  have "isArray (moods (moodBar oa j (list ! j)))"
    using assms(4) by (rule moodBar_array)
  then have "isArray (moods (bs ! j))"
    using n fileValue_array by (simp add: storedBar_def)
  with w l show ?thesis by blast
qed

text \<open>
  C10. The script's header says that it writes the store back with a \<open>moods\<close> array
  per bar, and the loop tests \<open>bar.vibes\<close> with \<open>Array.isArray\<close>; \<open>bar.moods\<close> it
  tests for truthiness only (\<open>bar.moods || []\<close>). So a bar whose \<open>moods\<close> is a truthy
  value that is not an array, here the string \<open>party_night\<close>, is written back with
  that string when the classification gives no valid label, and also when the request
  throws; and a bar whose \<open>moods\<close> is a number that is not finite (\<open>1e999\<close> in the
  file) is written back with \<open>moods\<close> \<open>null\<close>. In each run the written \<open>moods\<close> is
  not an array.
\<close>

theorem moods_string_stays_string:
  "written (moodMain (\<lambda>i p. ReviewsNull) (\<lambda>i. OpenAINoArray) (str ''g'') (str ''o'')
      (InputRows [\<lparr>mb_name = str ''Kvarnen'', mb_place_id = None,
                   moods = JStr (str ''party_night'')\<rparr>]))
     = Some [\<lparr>mb_name = str ''Kvarnen'', mb_place_id = None,
              moods = JStr (str ''party_night'')\<rparr>]
   \<and> \<not> isArray (JStr (str ''party_night''))
   \<and> written (moodMain (\<lambda>i p. ReviewsNull) (\<lambda>i. OpenAIThrows (str ''OpenAI 500''))
        (str ''g'') (str ''o'')
        (InputRows [\<lparr>mb_name = str ''Kvarnen'', mb_place_id = None,
                     moods = JStr (str ''party_night'')\<rparr>]))
     = Some [\<lparr>mb_name = str ''Kvarnen'', mb_place_id = None,
              moods = JStr (str ''party_night'')\<rparr>]
   \<and> written (moodMain (\<lambda>i p. ReviewsNull)
        (\<lambda>i. OpenAIParsed (JArr [JStr (str ''romantic'')])) (str ''g'') (str ''o'')
        (InputRows [\<lparr>mb_name = str ''Kvarnen'', mb_place_id = None,
                     moods = JNum PlusInfinity\<rparr>]))
     = Some [\<lparr>mb_name = str ''Kvarnen'', mb_place_id = None, moods = JNull\<rparr>]
   \<and> \<not> isArray JNull"
  by (simp add: moodMain_def moodRow_def moodBar_def classifyBarWithOpenAI_def moodsOrEmpty_def
      storedBar_def fileValue_def nullIfFalsy_def truthyStr_def Let_def MOODS_def str_simps)


section \<open>Fatal preconditions (C8)\<close>

text \<open>
  C8. With the input file missing, or with a required credential missing (the Mapbox
  token, the Places key, either key of the mood script; the Photon script needs none),
  every script exits with status 1, has written no file and has sent no request, so
  no row was processed.
\<close>

theorem fatal_preconditions_abort:
  "(inp = InputMissing \<longrightarrow>
      exit_status (photonMain photon inp) = 1 \<and> written (photonMain photon inp) = None
      \<and> sent (photonMain photon inp) = [])
   \<and> (token = [] \<or> inp = InputMissing \<longrightarrow>
      exit_status (mapboxMain mapbox token inp) = 1 \<and> written (mapboxMain mapbox token inp) = None
      \<and> sent (mapboxMain mapbox token inp) = [])
   \<and> (apiKey = [] \<or> inp = InputMissing \<longrightarrow>
      exit_status (placesMain findPlace details apiKey inp) = 1
      \<and> written (placesMain findPlace details apiKey inp) = None
      \<and> \<not> csv_written (placesMain findPlace details apiKey inp)
      \<and> sent (placesMain findPlace details apiKey inp) = [])
   \<and> (gk = [] \<or> ok = [] \<or> store = InputMissing \<longrightarrow>
      exit_status (moodMain rv oa gk ok store) = 1 \<and> written (moodMain rv oa gk ok store) = None
      \<and> sent (moodMain rv oa gk ok store) = [])"
  by (auto simp add: photonMain_def mapboxMain_def placesMain_def placesAbort_def moodMain_def)

theorem fatal_preconditions_abort_witness:
  "exit_status (photonMain (\<lambda>i q. PhotonCoord (Finite 18.07) (Finite 59.31)) InputMissing) = 1
   \<and> written (mapboxMain (\<lambda>i q. MapboxCenter (Finite 18.07) (Finite 59.31)) [] (InputRows [])) = None
   \<and> \<not> csv_written (placesMain (\<lambda>i q. PlaceNone) (\<lambda>i p. DetailsNull) []
            (InputMissing :: row input))
   \<and> sent (moodMain (\<lambda>i p. ReviewsNull) (\<lambda>i. OpenAINoArray) (str ''g'') [] InputMissing) = []"
  using fatal_preconditions_abort
    [of InputMissing "\<lambda>i q. PhotonCoord (Finite 18.07) (Finite 59.31)" "[]"]
    fatal_preconditions_abort
    [of "InputRows []" _ "[]" "\<lambda>i q. MapboxCenter (Finite 18.07) (Finite 59.31)"]
    fatal_preconditions_abort
    [of InputMissing _ _ _ "[]" "\<lambda>i q. PlaceNone" "\<lambda>i p. DetailsNull"]
    fatal_preconditions_abort
    [of _ _ _ _ _ _ _ "str ''g''" "[]" InputMissing "\<lambda>i p. ReviewsNull" "\<lambda>i. OpenAINoArray"]
  by simp

section \<open>Geocoder memoization (C2)\<close>

lemma photonRow_hit:
  assumes "worthGeocoding (photonLocation r)"
    "addressKey (photonLocation r) \<in> fst ` set (coordCache st)"
  shows "ph_requests (photonRow svc i r st) = ph_requests st"
    "coordCache (photonRow svc i r st) = coordCache st"
  using assms by (simp_all add: photonRow_def Let_def)

lemma photonRow_skip:
  assumes "\<not> worthGeocoding (photonLocation r)"
  shows "ph_requests (photonRow svc i r st) = ph_requests st"
    "coordCache (photonRow svc i r st) = coordCache st"
  using assms by (simp_all add: photonRow_def Let_def)

lemma geocodePhoton_cases:
  "geocodePhoton s a lf = (None, False, [])
   \<or> (\<exists>msgs. geocodePhoton s a lf = (None, True, msgs))
   \<or> (\<exists>x y. geocodePhoton s a lf = (Some (x, y), True, []))"
  by (simp add: geocodePhoton_def split: photon_response.splits)

lemma photonRow_miss:
  assumes "worthGeocoding (photonLocation r)"
    "addressKey (photonLocation r) \<notin> fst ` set (coordCache st)"
  shows "(ph_requests (photonRow svc i r st) = ph_requests st
           \<and> coordCache (photonRow svc i r st) = coordCache st)
       \<or> (ph_requests (photonRow svc i r st) = ph_requests st @ [(photonLocation r, None)]
           \<and> coordCache (photonRow svc i r st) = coordCache st)
       \<or> (\<exists>x y. ph_requests (photonRow svc i r st)
                    = ph_requests st @ [(photonLocation r, Some (x, y))]
           \<and> coordCache (photonRow svc i r st)
                    = coordCache st @ [(addressKey (photonLocation r), x, y)])"
  using assms geocodePhoton_cases [of "svc i" "photonLocation r" "coordCache st = []"]
  by (auto simp add: photonRow_def Let_def)

lemma succeeded_snoc:
  "succeeded (reqs @ [(a, c)]) = succeeded reqs \<union> (case c of None \<Rightarrow> {} | Some v \<Rightarrow> {addressKey a})"
  by (auto simp add: succeeded_def split: option.splits)

lemma nth_succeeded:
  "i < length reqs \<Longrightarrow> snd (reqs ! i) \<noteq> None \<Longrightarrow> addressKey (fst (reqs ! i)) \<in> succeeded reqs"
proof -
  assume a: "i < length reqs" "snd (reqs ! i) \<noteq> None"
  then obtain c where "snd (reqs ! i) = Some c" by auto
  then have "(fst (reqs ! i), Some c) \<in> set reqs"
    using a(1) by (metis nth_mem prod.collapse)
  then show ?thesis unfolding succeeded_def by blast
qed

lemma memo_inv_snoc:
  assumes inv: "memo_inv st"
    and fresh: "addressKey a \<notin> fst ` set (coordCache st)"
    and reqs: "ph_requests st' = ph_requests st @ [(a, c)]"
    and cache: "succeeded (ph_requests st') \<subseteq> fst ` set (coordCache st')"
  shows "memo_inv st'"
proof -
  have "snd (ph_requests st' ! i) = None"
    if h: "i < j" "j < length (ph_requests st')"
      "addressKey (fst (ph_requests st' ! i)) = addressKey (fst (ph_requests st' ! j))" for i j
  proof (cases "j < length (ph_requests st)")
    case True
    with h have i: "i < length (ph_requests st)" by simp
    from True reqs have jj: "ph_requests st' ! j = ph_requests st ! j" by (simp add: nth_append)
    from i reqs have ii: "ph_requests st' ! i = ph_requests st ! i" by (simp add: nth_append)
    from inv have "\<forall>i j. i < j \<and> j < length (ph_requests st)
              \<and> addressKey (fst (ph_requests st ! i)) = addressKey (fst (ph_requests st ! j))
            \<longrightarrow> snd (ph_requests st ! i) = None"
      unfolding memo_inv_def by blast
    then have "snd (ph_requests st ! i) = None"
      using h(1) True h(3) ii jj by metis
    with ii show ?thesis by simp
  next
    case False
    with h reqs have j: "j = length (ph_requests st)" by simp
    with h have i: "i < length (ph_requests st)" by simp
    from j reqs have kj: "addressKey (fst (ph_requests st' ! j)) = addressKey a" by simp
    from i reqs have ii: "ph_requests st' ! i = ph_requests st ! i" by (simp add: nth_append)
    show ?thesis
    proof (rule ccontr)
      assume "snd (ph_requests st' ! i) \<noteq> None"
      with ii i have "addressKey (fst (ph_requests st ! i)) \<in> succeeded (ph_requests st)"
        using nth_succeeded by metis
      with inv have "addressKey (fst (ph_requests st ! i)) \<in> fst ` set (coordCache st)"
        unfolding memo_inv_def by blast
      with h(3) kj ii fresh show False by simp
    qed
  qed
  with cache show ?thesis unfolding memo_inv_def by blast
qed

lemma memo_inv_same:
  assumes "memo_inv st" "ph_requests st' = ph_requests st" "coordCache st' = coordCache st"
  shows "memo_inv st'"
  using assms unfolding memo_inv_def by simp

lemma memo_inv_photonRow:
  assumes inv: "memo_inv st"
  shows "memo_inv (photonRow svc i r st)"
proof (cases "worthGeocoding (photonLocation r)")
  case False
  then show ?thesis using inv photonRow_skip memo_inv_same by metis
next
  case True
  show ?thesis
  proof (cases "addressKey (photonLocation r) \<in> fst ` set (coordCache st)")
    case True
    with \<open>worthGeocoding (photonLocation r)\<close> show ?thesis
      using inv photonRow_hit memo_inv_same by metis
  next
    case False
    let ?st' = "photonRow svc i r st"
    from photonRow_miss [OF True False, of svc i]
    consider (a) "ph_requests ?st' = ph_requests st" "coordCache ?st' = coordCache st"
      | (b) "ph_requests ?st' = ph_requests st @ [(photonLocation r, None)]"
          "coordCache ?st' = coordCache st"
      | (c) x y where "ph_requests ?st' = ph_requests st @ [(photonLocation r, Some (x, y))]"
          "coordCache ?st' = coordCache st @ [(addressKey (photonLocation r), x, y)]"
      by blast
    then show ?thesis
    proof cases
      case a
      then show ?thesis using inv memo_inv_same by metis
    next
      case b
      have "succeeded (ph_requests ?st') \<subseteq> fst ` set (coordCache ?st')"
        using inv b unfolding memo_inv_def by (simp add: succeeded_snoc)
      with inv False b(1) show ?thesis by (rule memo_inv_snoc)
    next
      case c
      have "succeeded (ph_requests ?st') \<subseteq> fst ` set (coordCache ?st')"
        using inv c unfolding memo_inv_def by (auto simp add: succeeded_snoc)
      with inv False c(1) show ?thesis by (rule memo_inv_snoc)
    qed
  qed
qed

lemma memo_inv_photonLoop: "memo_inv st \<Longrightarrow> memo_inv (photonLoop svc i rows st)"
  by (induction rows arbitrary: i st) (simp_all add: memo_inv_photonRow)

lemma memo_inv_init: "memo_inv \<lparr>coordCache = [], ph_bars = [], ph_requests = [], ph_errors = []\<rparr>"
  by (simp add: memo_inv_def succeeded_def)

lemma photonMain_memo_aux:
  assumes "i < j" "j < length (sent (photonMain svc (InputRows rows)))"
    "addressKey (fst (sent (photonMain svc (InputRows rows)) ! i))
       = addressKey (fst (sent (photonMain svc (InputRows rows)) ! j))"
  shows "snd (sent (photonMain svc (InputRows rows)) ! i) = None"
proof -
  let ?st = "photonLoop svc 0 rows \<lparr>coordCache = [], ph_bars = [], ph_requests = [], ph_errors = []\<rparr>"
  have s: "sent (photonMain svc (InputRows rows)) = ph_requests ?st"
    by (simp add: photonMain_def Let_def)
  have "memo_inv ?st" using memo_inv_init memo_inv_photonLoop by blast
  with assms s show ?thesis unfolding memo_inv_def by metis
qed

lemma photonRow_reuse:
  assumes "worthGeocoding (photonLocation r)"
    "map_of (coordCache st) (addressKey (photonLocation r)) = Some (x, y)"
  shows "ph_requests (photonRow svc i r st) = ph_requests st
       \<and> e_lat (last (ph_bars (photonRow svc i r st))) = Some y
       \<and> e_lng (last (ph_bars (photonRow svc i r st))) = Some x"
proof -
  from assms(2) have "addressKey (photonLocation r) \<in> fst ` set (coordCache st)"
    by (metis domI dom_map_of_conv_image_fst)
  with assms show ?thesis
    by (simp add: photonRow_def Let_def)
qed

lemmas js_eval = jsOr_def truthyStr_def orEmpty_def orNull_def nullIfFalsy_def correctAddr_def
  barNameOf_def Let_def

lemmas photon_eval = photonMain_def photonRow_def geocodePhoton_def photonLocation_def
  photonOutAddress_def worthGeocoding_def addressKey_def stockholmQuery_def isNullWord_def

lemmas places_eval = placesMain_def placesRow_def placesEntry_def placeOf_def placeUsable_def
  placesQuery_def placesOutAddress_def deriveVibes_def toLowerCase_def lowerUnit_def

lemmas mood_eval = moodMain_def moodRow_def moodBar_def classifyBarWithOpenAI_def
  moodsOrEmpty_def storedBar_def fileValue_def

lemmas mapbox_eval = mapboxMain_def mapboxRow_def mapboxEntry_def mapboxLookup_def
  mapboxNeedsLookup_def falsyCoord_def isPlaceholder_def geocode_def

text \<open>
  C2, as stated, fails when the first request for an address finds nothing: only a
  coordinate is put into the cache (\<open>if (center) coordCache.set(...)\<close>), so the next
  row with the same normalized address sends a second request.
\<close>

theorem repeated_request_after_miss:
  "sent (photonMain (\<lambda>i q. PhotonNoResult)
      (InputRows
        [\<lparr>correct_address = None, location = Some (str ''Hornsgatan 66''), address = None,
          bar_name = Some (str ''Kvarnen''), name = None, lat = None, lng = None,
          dance_floor = None\<rparr>,
         \<lparr>correct_address = None, location = Some (str ''Hornsgatan   66''), address = None,
          bar_name = Some (str ''Bar 2''), name = None, lat = None, lng = None,
          dance_floor = None\<rparr>]))
   = [(str ''Hornsgatan 66'', None), (str ''Hornsgatan   66'', None)]
   \<and> addressKey (str ''Hornsgatan 66'') = addressKey (str ''Hornsgatan   66'')"
  by (simp add: photon_eval js_eval str_simps units string_ops)

text \<open>
  C2, amended. In a run of the Photon script, whenever two requests were sent for the
  same normalized address, the earlier one returned \<open>null\<close>: once a request for an
  address has returned a coordinate, no further request is sent for that address. And
  a row whose normalized address is in the cache sends no request and takes the cached
  coordinate.
\<close>

theorem geocoder_memoization:
  "(i < j \<and> j < length (sent (photonMain svc (InputRows rows)))
      \<and> addressKey (fst (sent (photonMain svc (InputRows rows)) ! i))
          = addressKey (fst (sent (photonMain svc (InputRows rows)) ! j))
      \<longrightarrow> snd (sent (photonMain svc (InputRows rows)) ! i) = None)
   \<and> (worthGeocoding (photonLocation r)
      \<and> map_of (coordCache st) (addressKey (photonLocation r)) = Some (x, y)
      \<longrightarrow> ph_requests (photonRow svc' k r st) = ph_requests st
        \<and> e_lat (last (ph_bars (photonRow svc' k r st))) = Some y
        \<and> e_lng (last (ph_bars (photonRow svc' k r st))) = Some x)"
  using photonMain_memo_aux [of i j svc rows] photonRow_reuse [of r st x y svc' k]
  by blast

text \<open>
  Three rows with one normalized address: the first request finds nothing, the second
  returns a coordinate, the third row sends none.
\<close>

theorem geocoder_memoization_witness:
  "sent (photonMain (\<lambda>i q. if i = 0 then PhotonNoResult
                            else PhotonCoord (Finite 18.0686) (Finite 59.3172))
      (InputRows
        [\<lparr>correct_address = None, location = Some (str ''Hornsgatan 66''), address = None,
          bar_name = Some (str ''Kvarnen''), name = None, lat = None, lng = None,
          dance_floor = None\<rparr>,
         \<lparr>correct_address = None, location = Some (str ''Hornsgatan   66''), address = None,
          bar_name = Some (str ''Bar 2''), name = None, lat = None, lng = None,
          dance_floor = None\<rparr>,
         \<lparr>correct_address = Some (str '' Hornsgatan 66 ''), location = None, address = None,
          bar_name = Some (str ''Bar 3''), name = None, lat = None, lng = None,
          dance_floor = None\<rparr>]))
     = [(str ''Hornsgatan 66'', None),
        (str ''Hornsgatan   66'', Some (Finite 18.0686, Finite 59.3172))]
   \<and> ph_requests
       (photonRow (\<lambda>i q. PhotonNoResult) 7
          \<lparr>correct_address = Some (str '' Hornsgatan 66 ''), location = None, address = None,
           bar_name = Some (str ''Bar 3''), name = None, lat = None, lng = None,
           dance_floor = None\<rparr>
          \<lparr>coordCache = [(str ''Hornsgatan 66'', Finite 18.0686, Finite 59.3172)], ph_bars = [],
           ph_requests = [], ph_errors = []\<rparr>) = []"
  using geocoder_memoization
    [of 0 1 "\<lambda>i q. if i = 0 then PhotonNoResult
                   else PhotonCoord (Finite 18.0686) (Finite 59.3172)"
        "[\<lparr>correct_address = None, location = Some (str ''Hornsgatan 66''), address = None,
           bar_name = Some (str ''Kvarnen''), name = None, lat = None, lng = None,
           dance_floor = None\<rparr>,
          \<lparr>correct_address = None, location = Some (str ''Hornsgatan   66''), address = None,
           bar_name = Some (str ''Bar 2''), name = None, lat = None, lng = None,
           dance_floor = None\<rparr>,
          \<lparr>correct_address = Some (str '' Hornsgatan 66 ''), location = None, address = None,
           bar_name = Some (str ''Bar 3''), name = None, lat = None, lng = None,
           dance_floor = None\<rparr>]"
        "\<lparr>correct_address = Some (str '' Hornsgatan 66 ''), location = None, address = None,
          bar_name = Some (str ''Bar 3''), name = None, lat = None, lng = None,
          dance_floor = None\<rparr>"
        "\<lparr>coordCache = [(str ''Hornsgatan 66'', Finite 18.0686, Finite 59.3172)], ph_bars = [],
          ph_requests = [], ph_errors = []\<rparr>"
        "Finite 18.0686" "Finite 59.3172" "\<lambda>i q. PhotonNoResult" 7]
  by (simp add: photon_eval js_eval str_simps units string_ops)

section \<open>Per-record failures (C9)\<close>

lemma photonMain_complete:
  "exit_status (photonMain svc (InputRows rows)) = 0
   \<and> (\<exists>bs. written (photonMain svc (InputRows rows)) = Some bs \<and> length bs = length rows)"
  by (simp add: photonMain_def Let_def photonLoop_bars_length)

lemma placesMain_written:
  assumes "apiKey \<noteq> []"
  shows "written (placesMain f d apiKey (InputRows rows))
           = Some (map (\<lambda>(j, r). placesEntry f d j r) (zip [0..<length rows] rows))"
  using assms placesLoop_bars [of f d 0 rows]
  by (simp add: placesMain_def Let_def)

lemma placesMain_logged:
  assumes "apiKey \<noteq> []"
  shows "removeAll InvalidKeyNotice (logged (placesMain f d apiKey (InputRows rows)))
     = concat (map (\<lambda>(j, r). case f j (placesQuery (barNameOf r)) of
                                  PlaceThrows k m \<Rightarrow> [LookupError (j + 1) (barNameOf r) m]
                                | _ \<Rightarrow> [])
                     (zip [0..<length rows] rows))"
  using assms placesLoop_log [of f d 0 rows]
  by (simp add: placesMain_def Let_def)

lemma mapboxMain_written:
  assumes "token \<noteq> []"
  shows "written (mapboxMain svc token (InputRows rows))
           = Some (map (\<lambda>(j, r). mapboxEntry svc token j r) (zip [0..<length rows] rows))"
  using assms mapboxLoop_bars [of svc token 0 rows]
  by (simp add: mapboxMain_def Let_def)

lemma moodRow_log_mono: "set (c_log st) \<subseteq> set (c_log (moodRow rv oa i b st))"
  by (simp add: moodRow_def Let_def)

lemma moodLoop_log_mono: "set (c_log st) \<subseteq> set (c_log (moodLoop rv oa i bs st))"
proof (induction bs arbitrary: i st)
  case Nil
  then show ?case by simp
next
  case (Cons b bs)
  then show ?case using moodRow_log_mono by (metis moodLoop.simps(2) subset_trans)
qed

lemma moodRow_logs_throw:
  "classifyBarWithOpenAI (oa i) = Inl m
   \<Longrightarrow> OpenAIWarning (i + 1) (mb_name b) m \<in> set (c_log (moodRow rv oa i b st))"
  by (simp add: moodRow_def Let_def)

lemma moodLoop_logs_throw:
  "j < length bs \<Longrightarrow> classifyBarWithOpenAI (oa (i + j)) = Inl m
   \<Longrightarrow> OpenAIWarning (i + j + 1) (mb_name (bs ! j)) m \<in> set (c_log (moodLoop rv oa i bs st))"
proof (induction bs arbitrary: i j st)
  case Nil
  then show ?case by simp
next
  case (Cons b bs)
  show ?case
  proof (cases j)
    case 0
    with Cons.prems have "OpenAIWarning (i + j + 1) (mb_name ((b # bs) ! j)) m
        \<in> set (c_log (moodRow rv oa i b st))"
      using moodRow_logs_throw [of oa i m b rv st] by simp
    then show ?thesis using moodLoop_log_mono by fastforce
  next
    case (Suc k)
    with Cons.prems have "k < length bs" "classifyBarWithOpenAI (oa (Suc i + k)) = Inl m"
      by simp_all
    from Cons.IH [OF this, of "moodRow rv oa i b st"] Suc show ?thesis by simp
  qed
qed

lemma moodMain_logs_throw:
  assumes "gk \<noteq> []" "ok \<noteq> []" "j < length list" "classifyBarWithOpenAI (oa j) = Inl m"
  shows "OpenAIWarning (j + 1) (mb_name (list ! j)) m
           \<in> set (logged (moodMain rv oa gk ok (InputRows list)))"
  using assms moodLoop_logs_throw [of j list oa 0 m rv]
  by (simp add: moodMain_def Let_def)

lemma moodBar_failed:
  "(\<forall>ms. classifyBarWithOpenAI (oa i) = Inr ms \<longrightarrow> ms = [])
   \<Longrightarrow> moods (moodBar oa i bar) = moodsOrEmpty (moods bar)"
  by (auto simp add: moodBar_def split: sum.splits)

lemma photonRow_quiet:
  "coordCache st \<noteq> [] \<Longrightarrow> ph_errors (photonRow svc i r st) = ph_errors st"
  by (simp add: photonRow_def geocodePhoton_def Let_def split: photon_response.splits)

lemma photonRow_first_error:
  assumes "coordCache st = []" "worthGeocoding (photonLocation r)" "trim (photonLocation r) \<noteq> []"
    "svc i (stockholmQuery (photonLocation r)) = PhotonThrows m"
  shows "ph_errors (photonRow svc i r st) = ph_errors st @ [GeocodeError m]"
proof -
  from assms(2) have "photonLocation r \<noteq> []" "\<not> isNullWord (photonLocation r)"
    by (simp_all add: worthGeocoding_def)
  with assms show ?thesis
    by (simp add: photonRow_def geocodePhoton_def Let_def)
qed


lemma map_of_fresh: "k \<notin> fst ` set xs \<Longrightarrow> map_of xs k = None"
  by (simp add: map_of_eq_None_iff)

lemma photonRow_kept:
  assumes "addressKey (photonLocation r) \<notin> fst ` set (coordCache st)"
    "\<forall>x y. svc i (stockholmQuery (photonLocation r)) \<noteq> PhotonCoord x y"
  shows "e_lat (last (ph_bars (photonRow svc i r st))) = lat r
       \<and> e_lng (last (ph_bars (photonRow svc i r st))) = lng r"
proof -
  have "fst (geocodePhoton (svc i) (photonLocation r) lf) = None" for lf
    using assms(2) by (simp add: geocodePhoton_def split: photon_response.splits)
  then have g: "\<exists>b m. geocodePhoton (svc i) (photonLocation r) lf = (None, b, m)" for lf
    by (metis prod.collapse)
  show ?thesis
  proof (cases "worthGeocoding (photonLocation r)")
    case False
    then show ?thesis by (simp add: photonRow_def Let_def)
  next
    case True
    obtain b m where
      "geocodePhoton (svc i) (photonLocation r) (coordCache st = []) = (None, b, m)"
      using g by blast
    with True assms(1) show ?thesis
      by (simp add: photonRow_def Let_def map_of_fresh)
  qed
qed


lemma photonLoop_append:
  "photonLoop svc i (xs @ ys) st = photonLoop svc (i + length xs) ys (photonLoop svc i xs st)"
  by (induction xs arbitrary: i st) simp_all

lemma photonRow_bars_snoc:
  "ph_bars (photonRow svc i r st) = ph_bars st @ [last (ph_bars (photonRow svc i r st))]"
  by (simp add: photonRow_def Let_def split: prod.splits)

lemma photonLoop_bars_prefix:
  "take (length (ph_bars st)) (ph_bars (photonLoop svc i rows st)) = ph_bars st"
proof (induction rows arbitrary: i st)
  case Nil
  then show ?case by simp
next
  case (Cons r rows)
  have "take (length (ph_bars (photonRow svc i r st)))
          (ph_bars (photonLoop svc (Suc i) rows (photonRow svc i r st)))
        = ph_bars (photonRow svc i r st)"
    by (rule Cons.IH)
  then have "take (length (ph_bars st))
          (take (length (ph_bars (photonRow svc i r st)))
             (ph_bars (photonLoop svc (Suc i) rows (photonRow svc i r st))))
        = take (length (ph_bars st)) (ph_bars (photonRow svc i r st))"
    by simp
  moreover have "take (length (ph_bars st)) (ph_bars (photonRow svc i r st)) = ph_bars st"
    using photonRow_bars_snoc [of svc i r st] by (metis append_eq_conv_conj)
  ultimately show ?case
    by (simp add: photonRow_bars_length min_def)
qed

lemma photonLoop_nth:
  assumes "j < length rows"
  shows "ph_bars (photonLoop svc i rows st) ! (length (ph_bars st) + j)
           = last (ph_bars (photonRow svc (i + j) (rows ! j) (photonLoop svc i (take j rows) st)))"
proof -
  let ?S = "photonLoop svc i (take j rows) st"
  let ?R = "photonRow svc (i + j) (rows ! j) ?S"
  have rows: "rows = take j rows @ (rows ! j # drop (Suc j) rows)"
    using assms by (simp add: id_take_nth_drop)
  have lj: "length (take j rows) = j" using assms by simp
  have "photonLoop svc i rows st
          = photonLoop svc (i + j) (rows ! j # drop (Suc j) rows) ?S"
    using photonLoop_append [of svc i "take j rows" "rows ! j # drop (Suc j) rows" st] rows lj
    by simp
  then have f: "photonLoop svc i rows st = photonLoop svc (Suc (i + j)) (drop (Suc j) rows) ?R"
    by simp
  have ls: "length (ph_bars ?S) = length (ph_bars st) + j"
    using photonLoop_bars_length [of svc i "take j rows" st] lj by simp
  have "take (length (ph_bars ?R)) (ph_bars (photonLoop svc i rows st)) = ph_bars ?R"
    using f photonLoop_bars_prefix [of ?R svc "Suc (i + j)" "drop (Suc j) rows"] by simp
  moreover have "length (ph_bars ?R) = Suc (length (ph_bars st) + j)"
    using ls by (simp add: photonRow_bars_length)
  ultimately have "ph_bars (photonLoop svc i rows st) ! (length (ph_bars st) + j)
      = ph_bars ?R ! (length (ph_bars st) + j)"
    by (metis lessI nth_take)
  also have "\<dots> = last (ph_bars ?R)"
    using photonRow_bars_snoc [of svc "i + j" "rows ! j" ?S] ls
    by (metis nth_append_length)
  finally show ?thesis .
qed

text \<open>Only a request that returned a coordinate puts a key into the cache.\<close>

lemma photonRow_cache_from_requests:
  assumes "fst ` set (coordCache st) \<subseteq> succeeded (ph_requests st)"
  shows "fst ` set (coordCache (photonRow svc i r st)) \<subseteq> succeeded (ph_requests (photonRow svc i r st))"
proof (cases "worthGeocoding (photonLocation r)
              \<and> addressKey (photonLocation r) \<notin> fst ` set (coordCache st)")
  case False
  then have "ph_requests (photonRow svc i r st) = ph_requests st"
    "coordCache (photonRow svc i r st) = coordCache st"
    using photonRow_hit [of r st svc i] photonRow_skip [of r svc i st] by auto
  with assms show ?thesis by simp
next
  case True
  from photonRow_miss [of r st svc i] True
  consider (a) "ph_requests (photonRow svc i r st) = ph_requests st"
      "coordCache (photonRow svc i r st) = coordCache st"
    | (b) "ph_requests (photonRow svc i r st) = ph_requests st @ [(photonLocation r, None)]"
      "coordCache (photonRow svc i r st) = coordCache st"
    | (c) x y where
      "ph_requests (photonRow svc i r st) = ph_requests st @ [(photonLocation r, Some (x, y))]"
      "coordCache (photonRow svc i r st) = coordCache st @ [(addressKey (photonLocation r), x, y)]"
    by blast
  then show ?thesis
  proof cases
    case a
    with assms show ?thesis by simp
  next
    case b
    with assms show ?thesis by (simp add: succeeded_snoc)
  next
    case c
    with assms show ?thesis by (auto simp add: succeeded_snoc)
  qed
qed

lemma photonLoop_cache_from_requests:
  "fst ` set (coordCache st) \<subseteq> succeeded (ph_requests st)
   \<Longrightarrow> fst ` set (coordCache (photonLoop svc i rows st))
         \<subseteq> succeeded (ph_requests (photonLoop svc i rows st))"
  by (induction rows arbitrary: i st) (simp_all add: photonRow_cache_from_requests)

lemma photonRow_requests_grow:
  "succeeded (ph_requests st) \<subseteq> succeeded (ph_requests (photonRow svc i r st))"
proof (cases "worthGeocoding (photonLocation r)
              \<and> addressKey (photonLocation r) \<notin> fst ` set (coordCache st)")
  case False
  then have "ph_requests (photonRow svc i r st) = ph_requests st"
    using photonRow_hit [of r st svc i] photonRow_skip [of r svc i st] by auto
  then show ?thesis by simp
next
  case True
  from photonRow_miss [of r st svc i] True
  have "ph_requests (photonRow svc i r st) = ph_requests st
        \<or> (\<exists>c. ph_requests (photonRow svc i r st) = ph_requests st @ [(photonLocation r, c)])"
    by blast
  then show ?thesis by (auto simp add: succeeded_snoc)
qed

lemma photonLoop_requests_grow:
  "succeeded (ph_requests st) \<subseteq> succeeded (ph_requests (photonLoop svc i rows st))"
proof (induction rows arbitrary: i st)
  case Nil
  then show ?case by simp
next
  case (Cons r rows)
  have "succeeded (ph_requests st) \<subseteq> succeeded (ph_requests (photonRow svc i r st))"
    by (rule photonRow_requests_grow)
  also have "\<dots> \<subseteq> succeeded (ph_requests (photonLoop svc (Suc i) rows (photonRow svc i r st)))"
    by (rule Cons.IH)
  finally show ?case by simp
qed

lemma photonRow_errors:
  "ph_errors (photonRow svc i r st)
     = ph_errors st
       @ (if worthGeocoding (photonLocation r) \<and> trim (photonLocation r) \<noteq> []
             \<and> coordCache st = []
          then (case svc i (stockholmQuery (photonLocation r)) of
                  PhotonThrows m \<Rightarrow> [GeocodeError m] | _ \<Rightarrow> [])
          else [])"
  by (auto simp add: photonRow_def geocodePhoton_def worthGeocoding_def Let_def
      split: photon_response.splits)

lemma photonRow_errors_mem:
  assumes old: "l \<in> set (ph_errors (photonRow svc i r st))"
  shows "l \<in> set (ph_errors st)
        \<or> (\<exists>m. l = GeocodeError m \<and> svc i (stockholmQuery (photonLocation r)) = PhotonThrows m)"
proof (cases "worthGeocoding (photonLocation r) \<and> trim (photonLocation r) \<noteq> [] \<and> coordCache st = []")
  case False
  with old show ?thesis by (simp add: photonRow_errors [of svc i r st])
next
  case True
  show ?thesis
  proof (cases "svc i (stockholmQuery (photonLocation r))")
    case (PhotonThrows m)
    with old True show ?thesis by (simp add: photonRow_errors [of svc i r st] disj_commute)
  next
    case PhotonNoResult
    with old True show ?thesis by (simp add: photonRow_errors [of svc i r st] disj_commute)
  next
    case (PhotonCoord x y)
    with old True show ?thesis by (simp add: photonRow_errors [of svc i r st] disj_commute)
  qed
qed


lemma photonLoop_errors:
  assumes "l \<in> set (ph_errors (photonLoop svc i rows st))"
  shows "l \<in> set (ph_errors st)
       \<or> (\<exists>j < length rows. \<exists>m. l = GeocodeError m
            \<and> svc (i + j) (stockholmQuery (photonLocation (rows ! j))) = PhotonThrows m)"
  using assms
proof (induction rows arbitrary: i st)
  case Nil
  then show ?case by simp
next
  case (Cons r rows)
  from Cons.prems have "l \<in> set (ph_errors (photonLoop svc (Suc i) rows (photonRow svc i r st)))"
    by simp
  then have "l \<in> set (ph_errors (photonRow svc i r st))
       \<or> (\<exists>j < length rows. \<exists>m. l = GeocodeError m
            \<and> svc (Suc i + j) (stockholmQuery (photonLocation (rows ! j))) = PhotonThrows m)"
    by (rule Cons.IH)
  then show ?case
  proof
    assume "l \<in> set (ph_errors (photonRow svc i r st))"
    then have "l \<in> set (ph_errors st)
        \<or> (\<exists>m. l = GeocodeError m \<and> svc i (stockholmQuery (photonLocation r)) = PhotonThrows m)"
      by (rule photonRow_errors_mem)
    then show ?thesis
    proof
      assume "l \<in> set (ph_errors st)"
      then show ?thesis by (rule disjI1)
    next
      assume "\<exists>m. l = GeocodeError m \<and> svc i (stockholmQuery (photonLocation r)) = PhotonThrows m"
      then obtain m where m: "l = GeocodeError m"
        "svc i (stockholmQuery (photonLocation r)) = PhotonThrows m"
        by (elim exE conjE)
      have "\<exists>j < length (r # rows). \<exists>m. l = GeocodeError m
            \<and> svc (i + j) (stockholmQuery (photonLocation ((r # rows) ! j))) = PhotonThrows m"
        by (rule exI [of _ 0], intro conjI exI [of _ m]) (simp_all add: m)
      then show ?thesis by (rule disjI2)
    qed
  next
    assume "\<exists>j < length rows. \<exists>m. l = GeocodeError m
            \<and> svc (Suc i + j) (stockholmQuery (photonLocation (rows ! j))) = PhotonThrows m"
    then obtain j m where jm: "j < length rows" "l = GeocodeError m"
        "svc (Suc i + j) (stockholmQuery (photonLocation (rows ! j))) = PhotonThrows m"
      by (elim exE conjE)
    have "\<exists>j < length (r # rows). \<exists>m. l = GeocodeError m
            \<and> svc (i + j) (stockholmQuery (photonLocation ((r # rows) ! j))) = PhotonThrows m"
      using jm by (intro exI [of _ "Suc j"] conjI exI [of _ m]) simp_all
    then show ?thesis by (rule disjI2)
  qed
qed

lemma placesOut_never_empty: "placesOutAddress r \<noteq> Some []"
  by (simp add: placesOutAddress_def correctAddr_def jsOr_def truthyStr_def orNull_def)

lemma placesOut_absorbs: "jsOr (correctAddr r) (placesOutAddress r) = placesOutAddress r"
  by (simp add: placesOutAddress_def jsOr_def)

lemma jsOr_None: "jsOr None x = x"
  by (simp add: jsOr_def truthyStr_def)

lemma placesEntry_failed:
  assumes "placeOf (f i (placesQuery (barNameOf r))) = None"
  shows "e_bar_name (placesEntry f d i r) = barNameOf r"
    "e_lat (placesEntry f d i r) = lat r"
    "e_lng (placesEntry f d i r) = lng r"
    "e_place_id (placesEntry f d i r) = None"
    "e_photo_reference (placesEntry f d i r) = None"
    "e_vibes (placesEntry f d i r) = deriveVibes r None"
    "e_correct_address (placesEntry f d i r) = None"
    "e_location (placesEntry f d i r)
       = (case placesOutAddress r of
            None \<Rightarrow> None
          | Some a \<Rightarrow> Some (if trim a = [] then a else trim a))"
proof -
  show "e_bar_name (placesEntry f d i r) = barNameOf r"
    "e_lat (placesEntry f d i r) = lat r"
    "e_lng (placesEntry f d i r) = lng r"
    "e_place_id (placesEntry f d i r) = None"
    "e_photo_reference (placesEntry f d i r) = None"
    "e_vibes (placesEntry f d i r) = deriveVibes r None"
    "e_correct_address (placesEntry f d i r) = None"
    using assms by (simp_all add: placesEntry_def Let_def)
  have "e_location (placesEntry f d i r)
      = nullIfFalsy (jsOr (orNull (trim (orEmpty (placesOutAddress r)))) (placesOutAddress r))"
    using assms by (simp add: placesEntry_def Let_def placesOut_absorbs jsOr_None)
  also have "\<dots> = (case placesOutAddress r of
            None \<Rightarrow> None
          | Some a \<Rightarrow> Some (if trim a = [] then a else trim a))"
    using placesOut_never_empty [of r]
    by (cases "placesOutAddress r")
       (simp_all add: nullIfFalsy_def jsOr_def orNull_def orEmpty_def truthyStr_def trim_Nil)
  finally show "e_location (placesEntry f d i r)
       = (case placesOutAddress r of
            None \<Rightarrow> None
          | Some a \<Rightarrow> Some (if trim a = [] then a else trim a))" .
qed

lemma placesRow_failed:
  "failed (placesRow f d i r st)
     = failed st + (case f i (placesQuery (barNameOf r)) of PlaceThrows k m \<Rightarrow> 1 | _ \<Rightarrow> 0)"
  by (simp add: placesRow_def Let_def split: place_result.splits)

lemma placesLoop_failed:
  "failed (placesLoop f d i rows st)
     = failed st
       + length (concat (map (\<lambda>(j, r). case f j (placesQuery (barNameOf r)) of
                                  PlaceThrows k m \<Rightarrow> [LookupError (j + 1) (barNameOf r) m]
                                | _ \<Rightarrow> [])
                     (zip [i..<i + length rows] rows)))"
proof (induction rows arbitrary: i st)
  case Nil
  then show ?case by simp
next
  case (Cons r rows)
  have u: "[i..<i + length (r # rows)] = i # [Suc i..<Suc i + length rows]"
    using upt_shift [of i "length rows"] by simp
  have "failed (placesLoop f d i (r # rows) st)
      = failed (placesRow f d i r st)
       + length (concat (map (\<lambda>(j, r). case f j (placesQuery (barNameOf r)) of
                                  PlaceThrows k m \<Rightarrow> [LookupError (j + 1) (barNameOf r) m]
                                | _ \<Rightarrow> [])
                     (zip [Suc i..<Suc i + length rows] rows)))"
    using Cons.IH [of "Suc i" "placesRow f d i r st"] by simp
  also have "failed (placesRow f d i r st)
      = failed st + length (case f i (placesQuery (barNameOf r)) of
                              PlaceThrows k m \<Rightarrow> [LookupError (i + 1) (barNameOf r) m]
                            | _ \<Rightarrow> [])"
    by (simp add: placesRow_failed split: place_result.splits)
  finally show ?case
    by (simp only: u zip_Cons_Cons list.map prod.case concat.simps length_append add.assoc)
qed

lemma placesMain_failed:
  assumes "apiKey \<noteq> []"
  shows "lookups_failed (placesMain f d apiKey (InputRows rows))
     = length (removeAll InvalidKeyNotice (logged (placesMain f d apiKey (InputRows rows))))"
  using assms placesLoop_failed [of f d 0 rows] placesLoop_log [of f d 0 rows]
  by (simp add: placesMain_def Let_def)

lemma moodRow_log:
  "c_log (moodRow rv oa i b st)
     = c_log st
       @ (case nullIfFalsy (mb_place_id b) of
            None \<Rightarrow> []
          | Some p \<Rightarrow> (case rv i p of
                         ReviewsThrows m \<Rightarrow> [PlacesWarning (i + 1) (mb_name b) m]
                       | _ \<Rightarrow> []))
       @ (case classifyBarWithOpenAI (oa i) of
            Inl m \<Rightarrow> [OpenAIWarning (i + 1) (mb_name b) m]
          | Inr ms \<Rightarrow> [])"
  by (simp add: moodRow_def Let_def)

lemma moodLoop_log:
  "c_log (moodLoop rv oa i bs st)
     = c_log st
       @ concat (map (\<lambda>(j, b).
           (case nullIfFalsy (mb_place_id b) of
              None \<Rightarrow> []
            | Some p \<Rightarrow> (case rv j p of
                           ReviewsThrows m \<Rightarrow> [PlacesWarning (j + 1) (mb_name b) m]
                         | _ \<Rightarrow> []))
           @ (case classifyBarWithOpenAI (oa j) of
                Inl m \<Rightarrow> [OpenAIWarning (j + 1) (mb_name b) m]
              | Inr ms \<Rightarrow> []))
         (zip [i..<i + length bs] bs))"
proof (induction bs arbitrary: i st)
  case Nil
  then show ?case by simp
next
  case (Cons b bs)
  have "[i..<i + length (b # bs)] = i # [Suc i..<Suc i + length bs]"
    using upt_shift [of i "length bs"] by simp
  then show ?case
    using Cons.IH [of "Suc i" "moodRow rv oa i b st"]
    by (simp only: moodLoop.simps moodRow_log zip_Cons_Cons list.map prod.case concat.simps
        append_assoc)
qed

lemma moodMain_logged:
  assumes "gk \<noteq> []" "ok \<noteq> []"
  shows "logged (moodMain rv oa gk ok (InputRows list))
     = concat (map (\<lambda>(j, b).
           (case nullIfFalsy (mb_place_id b) of
              None \<Rightarrow> []
            | Some p \<Rightarrow> (case rv j p of
                           ReviewsThrows m \<Rightarrow> [PlacesWarning (j + 1) (mb_name b) m]
                         | _ \<Rightarrow> []))
           @ (case classifyBarWithOpenAI (oa j) of
                Inl m \<Rightarrow> [OpenAIWarning (j + 1) (mb_name b) m]
              | Inr ms \<Rightarrow> []))
         (zip [0..<length list] list))"
  using assms moodLoop_log [of rv oa 0 list]
  by (simp add: moodMain_def Let_def)

text \<open>The Photon run, entry by entry.\<close>

lemma photonMain_nth:
  assumes "j < length rows"
  shows "\<exists>bs. written (photonMain svc (InputRows rows)) = Some bs
       \<and> length bs = length rows
       \<and> bs ! j = last (ph_bars (photonRow svc j (rows ! j)
                    (photonLoop svc 0 (take j rows)
                       \<lparr>coordCache = [], ph_bars = [], ph_requests = [], ph_errors = []\<rparr>)))"
  using photonLoop_nth [OF assms, of svc 0
      "\<lparr>coordCache = [], ph_bars = [], ph_requests = [], ph_errors = []\<rparr>"]
  by (simp add: photonMain_def Let_def photonLoop_bars_length)

lemma photonMain_unanswered_kept:
  assumes j: "j < length rows"
    and u: "\<not> worthGeocoding (photonLocation (rows ! j))
          \<or> addressKey (photonLocation (rows ! j))
               \<notin> succeeded (sent (photonMain svc (InputRows rows)))"
  shows "e_lat (last (ph_bars (photonRow svc j (rows ! j)
                    (photonLoop svc 0 (take j rows)
                       \<lparr>coordCache = [], ph_bars = [], ph_requests = [], ph_errors = []\<rparr>))))
           = lat (rows ! j)
       \<and> e_lng (last (ph_bars (photonRow svc j (rows ! j)
                    (photonLoop svc 0 (take j rows)
                       \<lparr>coordCache = [], ph_bars = [], ph_requests = [], ph_errors = []\<rparr>))))
           = lng (rows ! j)"
proof (cases "worthGeocoding (photonLocation (rows ! j))")
  case False
  then show ?thesis by (simp add: photonRow_entry)
next
  case True
  let ?init = "\<lparr>coordCache = [], ph_bars = [], ph_requests = [], ph_errors = []\<rparr>"
  let ?S = "photonLoop svc 0 (take j rows) ?init"
  let ?R = "photonRow svc j (rows ! j) ?S"
  have rows: "rows = take j rows @ (rows ! j # drop (Suc j) rows)"
    using j by (simp add: id_take_nth_drop)
  have lj: "length (take j rows) = j" using j by simp
  have "photonLoop svc 0 rows ?init
          = photonLoop svc (0 + j) (rows ! j # drop (Suc j) rows) ?S"
    using photonLoop_append [of svc 0 "take j rows" "rows ! j # drop (Suc j) rows" ?init] rows lj
    by simp
  then have f: "photonLoop svc 0 rows ?init = photonLoop svc (Suc j) (drop (Suc j) rows) ?R"
    by simp
  have "fst ` set (coordCache ?init) \<subseteq> succeeded (ph_requests ?init)" by simp
  then have "fst ` set (coordCache ?S) \<subseteq> succeeded (ph_requests ?S)"
    by (rule photonLoop_cache_from_requests)
  then have "fst ` set (coordCache ?R) \<subseteq> succeeded (ph_requests ?R)"
    by (rule photonRow_cache_from_requests)
  also have "\<dots> \<subseteq> succeeded (ph_requests (photonLoop svc 0 rows ?init))"
    unfolding f by (rule photonLoop_requests_grow)
  also have "ph_requests (photonLoop svc 0 rows ?init) = sent (photonMain svc (InputRows rows))"
    by (simp add: photonMain_def Let_def)
  finally have "addressKey (photonLocation (rows ! j)) \<notin> fst ` set (coordCache ?R)"
    using u True by blast
  then have "map_of (coordCache ?R) (addressKey (photonLocation (rows ! j))) = None"
    by (rule map_of_fresh)
  then show ?thesis by (simp add: photonRow_entry)
qed

lemma photonRow_failed_cache:
  assumes "\<forall>x y. svc i (stockholmQuery (photonLocation r)) \<noteq> PhotonCoord x y"
  shows "coordCache (photonRow svc i r st) = coordCache st"
proof -
  have "fst (geocodePhoton (svc i) (photonLocation r) lf) = None" for lf
    using assms by (simp add: geocodePhoton_def split: photon_response.splits)
  then show ?thesis
    by (simp add: photonRow_def Let_def split: prod.splits option.splits) (metis fst_conv option.distinct(1))
qed

lemma placesMain_entries:
  assumes k: "apiKey \<noteq> []"
  shows "exit_status (placesMain f d apiKey (InputRows rows)) = 0
      \<and> csv_written (placesMain f d apiKey (InputRows rows))
      \<and> (\<exists>bs. written (placesMain f d apiKey (InputRows rows)) = Some bs
            \<and> length bs = length rows
            \<and> (\<forall>j < length rows.
                  bs ! j = placesEntry f d j (rows ! j)
                  \<and> (\<not> placeUsable (placeOf (f j (placesQuery (barNameOf (rows ! j)))))
                       \<longrightarrow> e_lat (bs ! j) = lat (rows ! j) \<and> e_lng (bs ! j) = lng (rows ! j))
                  \<and> ((\<forall>p. f j (placesQuery (barNameOf (rows ! j))) \<noteq> PlaceFound p)
                       \<longrightarrow> e_bar_name (bs ! j) = barNameOf (rows ! j)
                         \<and> e_location (bs ! j)
                             = (case placesOutAddress (rows ! j) of
                                  None \<Rightarrow> None
                                | Some a \<Rightarrow> Some (if trim a = [] then a else trim a))
                         \<and> e_lat (bs ! j) = lat (rows ! j)
                         \<and> e_lng (bs ! j) = lng (rows ! j)
                         \<and> e_vibes (bs ! j) = deriveVibes (rows ! j) None
                         \<and> e_place_id (bs ! j) = None
                         \<and> e_photo_reference (bs ! j) = None
                         \<and> e_correct_address (bs ! j) = None)))
      \<and> removeAll InvalidKeyNotice (logged (placesMain f d apiKey (InputRows rows)))
          = concat (map (\<lambda>(j, r). case f j (placesQuery (barNameOf r)) of
                                     PlaceThrows k m \<Rightarrow> [LookupError (j + 1) (barNameOf r) m]
                                   | _ \<Rightarrow> [])
                        (zip [0..<length rows] rows))
      \<and> lookups_failed (placesMain f d apiKey (InputRows rows))
          = length (removeAll InvalidKeyNotice (logged (placesMain f d apiKey (InputRows rows))))"
proof -
  let ?bs = "map (\<lambda>(j, r). placesEntry f d j r) (zip [0..<length rows] rows)"
  have w: "written (placesMain f d apiKey (InputRows rows)) = Some ?bs"
    using k by (rule placesMain_written)
  have e: "exit_status (placesMain f d apiKey (InputRows rows)) = 0"
    "csv_written (placesMain f d apiKey (InputRows rows))"
    using k by (simp_all add: placesMain_def Let_def)
  have n: "?bs ! j = placesEntry f d j (rows ! j)" if "j < length rows" for j
    using that indexed_nth [of j rows "placesEntry f d" 0] by simp
  have a: "\<not> placeUsable (placeOf (f j (placesQuery (barNameOf (rows ! j)))))
         \<longrightarrow> e_lat (?bs ! j) = lat (rows ! j) \<and> e_lng (?bs ! j) = lng (rows ! j)"
    if "j < length rows" for j
    using n [OF that] placesEntry_keeps [of f j "rows ! j" d] by simp
  have b: "(\<forall>p. f j (placesQuery (barNameOf (rows ! j))) \<noteq> PlaceFound p)
           \<longrightarrow> e_bar_name (?bs ! j) = barNameOf (rows ! j)
             \<and> e_location (?bs ! j)
                 = (case placesOutAddress (rows ! j) of
                      None \<Rightarrow> None
                    | Some a \<Rightarrow> Some (if trim a = [] then a else trim a))
             \<and> e_lat (?bs ! j) = lat (rows ! j)
             \<and> e_lng (?bs ! j) = lng (rows ! j)
             \<and> e_vibes (?bs ! j) = deriveVibes (rows ! j) None
             \<and> e_place_id (?bs ! j) = None
             \<and> e_photo_reference (?bs ! j) = None
             \<and> e_correct_address (?bs ! j) = None"
    if "j < length rows" for j
  proof
    assume "\<forall>p. f j (placesQuery (barNameOf (rows ! j))) \<noteq> PlaceFound p"
    then have "placeOf (f j (placesQuery (barNameOf (rows ! j)))) = None"
      by (simp add: placeOf_def split: place_result.splits)
    from this placesEntry_failed [of f j "rows ! j" d] n [OF that]
    show "e_bar_name (?bs ! j) = barNameOf (rows ! j)
             \<and> e_location (?bs ! j)
                 = (case placesOutAddress (rows ! j) of
                      None \<Rightarrow> None
                    | Some a \<Rightarrow> Some (if trim a = [] then a else trim a))
             \<and> e_lat (?bs ! j) = lat (rows ! j)
             \<and> e_lng (?bs ! j) = lng (rows ! j)
             \<and> e_vibes (?bs ! j) = deriveVibes (rows ! j) None
             \<and> e_place_id (?bs ! j) = None
             \<and> e_photo_reference (?bs ! j) = None
             \<and> e_correct_address (?bs ! j) = None"
      by simp
  qed
  have "length ?bs = length rows" by simp
  with w n a b have "\<exists>bs. written (placesMain f d apiKey (InputRows rows)) = Some bs
            \<and> length bs = length rows
            \<and> (\<forall>j < length rows.
                  bs ! j = placesEntry f d j (rows ! j)
                  \<and> (\<not> placeUsable (placeOf (f j (placesQuery (barNameOf (rows ! j)))))
                       \<longrightarrow> e_lat (bs ! j) = lat (rows ! j) \<and> e_lng (bs ! j) = lng (rows ! j))
                  \<and> ((\<forall>p. f j (placesQuery (barNameOf (rows ! j))) \<noteq> PlaceFound p)
                       \<longrightarrow> e_bar_name (bs ! j) = barNameOf (rows ! j)
                         \<and> e_location (bs ! j)
                             = (case placesOutAddress (rows ! j) of
                                  None \<Rightarrow> None
                                | Some a \<Rightarrow> Some (if trim a = [] then a else trim a))
                         \<and> e_lat (bs ! j) = lat (rows ! j)
                         \<and> e_lng (bs ! j) = lng (rows ! j)
                         \<and> e_vibes (bs ! j) = deriveVibes (rows ! j) None
                         \<and> e_place_id (bs ! j) = None
                         \<and> e_photo_reference (bs ! j) = None
                         \<and> e_correct_address (bs ! j) = None))"
    by (intro exI [of _ ?bs] conjI allI impI) blast+
  with e placesMain_logged [OF k, of f d rows] placesMain_failed [OF k, of f d rows]
  show ?thesis by (intro conjI)
qed

lemma moodMain_entries:
  assumes k: "gk \<noteq> [] \<and> ok \<noteq> []"
  shows "exit_status (moodMain rv oa gk ok (InputRows list)) = 0
      \<and> (\<exists>bs. written (moodMain rv oa gk ok (InputRows list)) = Some bs
            \<and> length bs = length list
            \<and> (\<forall>j < length list.
                  bs ! j = storedBar (moodBar oa j (list ! j))
                  \<and> mb_name (bs ! j) = mb_name (list ! j)
                  \<and> mb_place_id (bs ! j) = mb_place_id (list ! j)
                  \<and> ((\<forall>ms. classifyBarWithOpenAI (oa j) = Inr ms \<longrightarrow> ms = [])
                       \<longrightarrow> moods (bs ! j) = fileValue (moodsOrEmpty (moods (list ! j))))))
      \<and> logged (moodMain rv oa gk ok (InputRows list))
          = concat (map (\<lambda>(j, b).
               (case nullIfFalsy (mb_place_id b) of
                  None \<Rightarrow> []
                | Some p \<Rightarrow> (case rv j p of
                               ReviewsThrows m \<Rightarrow> [PlacesWarning (j + 1) (mb_name b) m]
                             | _ \<Rightarrow> []))
               @ (case classifyBarWithOpenAI (oa j) of
                    Inl m \<Rightarrow> [OpenAIWarning (j + 1) (mb_name b) m]
                  | Inr ms \<Rightarrow> []))
             (zip [0..<length list] list))"
proof -
  let ?bs = "map (\<lambda>(j, b). storedBar (moodBar oa j b)) (zip [0..<length list] list)"
  have w: "written (moodMain rv oa gk ok (InputRows list)) = Some ?bs"
    using k moodMain_written by blast
  have e: "exit_status (moodMain rv oa gk ok (InputRows list)) = 0"
    using k by (simp add: moodMain_def Let_def)
  have n: "?bs ! j = storedBar (moodBar oa j (list ! j))" if "j < length list" for j
    using that indexed_nth [of j list "\<lambda>j b. storedBar (moodBar oa j b)" 0] by simp
  have a: "mb_name (?bs ! j) = mb_name (list ! j)
         \<and> mb_place_id (?bs ! j) = mb_place_id (list ! j)
         \<and> ((\<forall>ms. classifyBarWithOpenAI (oa j) = Inr ms \<longrightarrow> ms = [])
               \<longrightarrow> moods (?bs ! j) = fileValue (moodsOrEmpty (moods (list ! j))))"
    if "j < length list" for j
    using n [OF that] moodBar_other_keys [of oa j "list ! j"] moodBar_failed [of oa j "list ! j"]
    by (simp add: storedBar_def)
  have "length ?bs = length list" by simp
  with w n a have "\<exists>bs. written (moodMain rv oa gk ok (InputRows list)) = Some bs
            \<and> length bs = length list
            \<and> (\<forall>j < length list.
                  bs ! j = storedBar (moodBar oa j (list ! j))
                  \<and> mb_name (bs ! j) = mb_name (list ! j)
                  \<and> mb_place_id (bs ! j) = mb_place_id (list ! j)
                  \<and> ((\<forall>ms. classifyBarWithOpenAI (oa j) = Inr ms \<longrightarrow> ms = [])
                       \<longrightarrow> moods (bs ! j) = fileValue (moodsOrEmpty (moods (list ! j)))))"
    by (intro exI [of _ ?bs] conjI allI impI) blast+
  with e moodMain_logged [of gk ok rv oa list] k show ?thesis by (intro conjI) simp_all
qed

lemma photonMain_entries:
  "exit_status (photonMain svc (InputRows prows)) = 0
   \<and> (\<exists>bs. written (photonMain svc (InputRows prows)) = Some bs
        \<and> length bs = length prows
        \<and> (\<forall>j < length prows.
              bs ! j = last (ph_bars (photonRow svc j (prows ! j)
                         (photonLoop svc 0 (take j prows)
                            \<lparr>coordCache = [], ph_bars = [], ph_requests = [], ph_errors = []\<rparr>)))
              \<and> e_bar_name (bs ! j) = barNameOf (prows ! j)
              \<and> e_location (bs ! j) = photonOutAddress (prows ! j)
              \<and> e_correct_address (bs ! j) = correctAddr (prows ! j)
              \<and> (\<not> worthGeocoding (photonLocation (prows ! j))
                   \<or> addressKey (photonLocation (prows ! j))
                        \<notin> succeeded (sent (photonMain svc (InputRows prows)))
                   \<longrightarrow> e_lat (bs ! j) = lat (prows ! j) \<and> e_lng (bs ! j) = lng (prows ! j))))
   \<and> (\<forall>l \<in> set (logged (photonMain svc (InputRows prows))).
         \<exists>j < length prows. \<exists>m. l = GeocodeError m
           \<and> svc j (stockholmQuery (photonLocation (prows ! j))) = PhotonThrows m)"
proof -
  let ?init = "\<lparr>coordCache = [], ph_bars = [], ph_requests = [], ph_errors = []\<rparr>"
  let ?bs = "ph_bars (photonLoop svc 0 prows ?init)"
  have w: "written (photonMain svc (InputRows prows)) = Some ?bs"
    and e: "exit_status (photonMain svc (InputRows prows)) = 0"
    by (simp_all add: photonMain_def Let_def)
  have l: "length ?bs = length prows"
    by (simp add: photonLoop_bars_length)
  have n: "?bs ! j = last (ph_bars (photonRow svc j (prows ! j)
                         (photonLoop svc 0 (take j prows) ?init)))"
    if "j < length prows" for j
    using photonLoop_nth [OF that, of svc 0 ?init] by simp
  have a: "e_bar_name (?bs ! j) = barNameOf (prows ! j)
         \<and> e_location (?bs ! j) = photonOutAddress (prows ! j)
         \<and> e_correct_address (?bs ! j) = correctAddr (prows ! j)"
    if "j < length prows" for j
    unfolding n [OF that] by (simp add: photonRow_entry)
  have b: "\<not> worthGeocoding (photonLocation (prows ! j))
           \<or> addressKey (photonLocation (prows ! j))
                \<notin> succeeded (sent (photonMain svc (InputRows prows)))
           \<longrightarrow> e_lat (?bs ! j) = lat (prows ! j) \<and> e_lng (?bs ! j) = lng (prows ! j)"
    if "j < length prows" for j
    unfolding n [OF that] using photonMain_unanswered_kept [OF that, of svc] by blast
  have entries: "\<exists>bs. written (photonMain svc (InputRows prows)) = Some bs
        \<and> length bs = length prows
        \<and> (\<forall>j < length prows.
              bs ! j = last (ph_bars (photonRow svc j (prows ! j)
                         (photonLoop svc 0 (take j prows) ?init)))
              \<and> e_bar_name (bs ! j) = barNameOf (prows ! j)
              \<and> e_location (bs ! j) = photonOutAddress (prows ! j)
              \<and> e_correct_address (bs ! j) = correctAddr (prows ! j)
              \<and> (\<not> worthGeocoding (photonLocation (prows ! j))
                   \<or> addressKey (photonLocation (prows ! j))
                        \<notin> succeeded (sent (photonMain svc (InputRows prows)))
                   \<longrightarrow> e_lat (bs ! j) = lat (prows ! j) \<and> e_lng (bs ! j) = lng (prows ! j)))"
    using w l n a b by (intro exI [of _ ?bs] conjI allI impI) blast+
  have lg: "\<forall>l \<in> set (logged (photonMain svc (InputRows prows))).
         \<exists>j < length prows. \<exists>m. l = GeocodeError m
           \<and> svc j (stockholmQuery (photonLocation (prows ! j))) = PhotonThrows m"
  proof
    fix l
    assume "l \<in> set (logged (photonMain svc (InputRows prows)))"
    then have "l \<in> set (ph_errors (photonLoop svc 0 prows ?init))"
      by (simp add: photonMain_def Let_def)
    from photonLoop_errors [OF this]
    show "\<exists>j < length prows. \<exists>m. l = GeocodeError m
           \<and> svc j (stockholmQuery (photonLocation (prows ! j))) = PhotonThrows m"
      by simp
  qed
  from e entries lg show ?thesis by (intro conjI)
qed

text \<open>
  C9, as stated, fails on "is logged" and on "keeps its prior state". A lookup that
  finds no place, a classification that returns no label and a geocoding request that
  finds no feature leave no line in the error log, and the Places script does not
  count them as failed. And the Places script builds every entry anew: a row read from
  a store that an earlier run wrote, with a place reference, a photo reference, tags
  and a corrected address, is written by a run whose lookup throws without the first
  two (\<open>null\<close>), without \<open>correct_address\<close>, and with the tags derived from
  \<open>dance_floor\<close> alone.
\<close>

theorem misses_leave_no_log_line:
  "logged (placesMain (\<lambda>i q. PlaceNone) (\<lambda>i p. DetailsNull) (str ''key'')
      (InputRows [\<lparr>correct_address = None, location = Some (str ''Hornsgatan 66''),
                   address = None, bar_name = Some (str ''Kvarnen''), name = None,
                   lat = None, lng = None, dance_floor = None\<rparr>])) = []
   \<and> lookups_failed (placesMain (\<lambda>i q. PlaceNone) (\<lambda>i p. DetailsNull) (str ''key'')
      (InputRows [\<lparr>correct_address = None, location = Some (str ''Hornsgatan 66''),
                   address = None, bar_name = Some (str ''Kvarnen''), name = None,
                   lat = None, lng = None, dance_floor = None\<rparr>])) = 0
   \<and> logged (moodMain (\<lambda>i p. ReviewsNull) (\<lambda>i. OpenAINoArray) (str ''g'') (str ''o'')
      (InputRows [\<lparr>mb_name = str ''Kvarnen'', mb_place_id = None, moods = JUndefined\<rparr>])) = []
   \<and> logged (photonMain (\<lambda>i q. PhotonNoResult)
      (InputRows [\<lparr>correct_address = None, location = Some (str ''Hornsgatan 66''),
                   address = None, bar_name = Some (str ''Kvarnen''), name = None,
                   lat = None, lng = None, dance_floor = None\<rparr>])) = []
   \<and> written (placesMain (\<lambda>i q. PlaceThrows False (str ''REQUEST_DENIED''))
        (\<lambda>i p. DetailsNull) (str ''key'')
        (InputRows [\<lparr>correct_address = Some (str ''Hornsgatan 66''), location = None,
                     address = None, bar_name = Some (str ''Kvarnen''), name = None,
                     lat = Some (Finite 59.3172), lng = Some (Finite 18.0686),
                     dance_floor = Some (str ''no''),
                     row_place_id = Some (str ''ChIJ1''),
                     row_photo_reference = Some (str ''photo1''),
                     row_vibes = Some [str ''dating'', str ''chill'']\<rparr>]))
     = Some [\<lparr>e_bar_name = str ''Kvarnen'', e_location = Some (str ''Hornsgatan 66''),
              e_lat = Some (Finite 59.3172), e_lng = Some (Finite 18.0686),
              e_correct_address = None, e_place_id = None, e_photo_reference = None,
              e_vibes = [str ''chill'']\<rparr>]"
  by (simp add: places_eval mood_eval photon_eval js_eval str_simps units string_ops)

text \<open>
  C9, amended. Whatever the remote services do, a run that passed its preconditions
  exits with status 0 and writes one entry per input row, and the entry of a row
  depends on no failure of another row.

  Places script: the entry of row \<open>j\<close> is \<open>placesEntry\<close> of that row alone. A row
  whose lookup threw or found no usable place keeps the coordinates it had; a row whose
  lookup threw or found no place is written with its name, its resolved address, its
  coordinates and the tags derived from \<open>dance_floor\<close>, with \<open>place_id\<close> and
  \<open>photo_reference\<close> \<open>null\<close> and without \<open>correct_address\<close>. The error log
  holds, next to the one notice about the key, one line for every row whose lookup
  threw and no other line, and the count of failed lookups is the number of these
  lines.

  Mood script: the bar of index \<open>j\<close> is written with its name and place reference as
  they were; when its classification threw or returned no valid label it keeps its
  moods (\<open>bar.moods || []\<close>, as \<open>JSON.stringify\<close> writes it). The log holds one line
  for every review request that threw and one for every classification that threw, in
  the order of the bars, and no other line.

  Photon script: the entry of row \<open>j\<close> is the one that the pass over row \<open>j\<close> pushes
  in the state that the rows before it left; it has the row's name and resolved
  address, and the row's own coordinates when the address is not worth geocoding or no
  request of the run returned a coordinate for its normalized address. A pass whose
  address is not cached and whose request returns no coordinate keeps the row's
  coordinates and leaves the cache as it was. Every line of the log is the message of
  a request that threw; a pass logs it only while the cache is still empty, so a
  request that finds nothing is never logged, and a thrown one is not once an address
  is cached.
\<close>

theorem failures_do_not_abort:
  "(apiKey \<noteq> [] \<longrightarrow>
      exit_status (placesMain f d apiKey (InputRows rows)) = 0
      \<and> csv_written (placesMain f d apiKey (InputRows rows))
      \<and> (\<exists>bs. written (placesMain f d apiKey (InputRows rows)) = Some bs
            \<and> length bs = length rows
            \<and> (\<forall>j < length rows.
                  bs ! j = placesEntry f d j (rows ! j)
                  \<and> (\<not> placeUsable (placeOf (f j (placesQuery (barNameOf (rows ! j)))))
                       \<longrightarrow> e_lat (bs ! j) = lat (rows ! j) \<and> e_lng (bs ! j) = lng (rows ! j))
                  \<and> ((\<forall>p. f j (placesQuery (barNameOf (rows ! j))) \<noteq> PlaceFound p)
                       \<longrightarrow> e_bar_name (bs ! j) = barNameOf (rows ! j)
                         \<and> e_location (bs ! j)
                             = (case placesOutAddress (rows ! j) of
                                  None \<Rightarrow> None
                                | Some a \<Rightarrow> Some (if trim a = [] then a else trim a))
                         \<and> e_lat (bs ! j) = lat (rows ! j)
                         \<and> e_lng (bs ! j) = lng (rows ! j)
                         \<and> e_vibes (bs ! j) = deriveVibes (rows ! j) None
                         \<and> e_place_id (bs ! j) = None
                         \<and> e_photo_reference (bs ! j) = None
                         \<and> e_correct_address (bs ! j) = None)))
      \<and> removeAll InvalidKeyNotice (logged (placesMain f d apiKey (InputRows rows)))
          = concat (map (\<lambda>(j, r). case f j (placesQuery (barNameOf r)) of
                                     PlaceThrows k m \<Rightarrow> [LookupError (j + 1) (barNameOf r) m]
                                   | _ \<Rightarrow> [])
                        (zip [0..<length rows] rows))
      \<and> lookups_failed (placesMain f d apiKey (InputRows rows))
          = length (removeAll InvalidKeyNotice (logged (placesMain f d apiKey (InputRows rows)))))
   \<and> (gk \<noteq> [] \<and> ok \<noteq> [] \<longrightarrow>
      exit_status (moodMain rv oa gk ok (InputRows list)) = 0
      \<and> (\<exists>bs. written (moodMain rv oa gk ok (InputRows list)) = Some bs
            \<and> length bs = length list
            \<and> (\<forall>j < length list.
                  bs ! j = storedBar (moodBar oa j (list ! j))
                  \<and> mb_name (bs ! j) = mb_name (list ! j)
                  \<and> mb_place_id (bs ! j) = mb_place_id (list ! j)
                  \<and> ((\<forall>ms. classifyBarWithOpenAI (oa j) = Inr ms \<longrightarrow> ms = [])
                       \<longrightarrow> moods (bs ! j) = fileValue (moodsOrEmpty (moods (list ! j))))))
      \<and> logged (moodMain rv oa gk ok (InputRows list))
          = concat (map (\<lambda>(j, b).
               (case nullIfFalsy (mb_place_id b) of
                  None \<Rightarrow> []
                | Some p \<Rightarrow> (case rv j p of
                               ReviewsThrows m \<Rightarrow> [PlacesWarning (j + 1) (mb_name b) m]
                             | _ \<Rightarrow> []))
               @ (case classifyBarWithOpenAI (oa j) of
                    Inl m \<Rightarrow> [OpenAIWarning (j + 1) (mb_name b) m]
                  | Inr ms \<Rightarrow> []))
             (zip [0..<length list] list)))
   \<and> exit_status (photonMain svc (InputRows prows)) = 0
   \<and> (\<exists>bs. written (photonMain svc (InputRows prows)) = Some bs
        \<and> length bs = length prows
        \<and> (\<forall>j < length prows.
              bs ! j = last (ph_bars (photonRow svc j (prows ! j)
                         (photonLoop svc 0 (take j prows)
                            \<lparr>coordCache = [], ph_bars = [], ph_requests = [], ph_errors = []\<rparr>)))
              \<and> e_bar_name (bs ! j) = barNameOf (prows ! j)
              \<and> e_location (bs ! j) = photonOutAddress (prows ! j)
              \<and> e_correct_address (bs ! j) = correctAddr (prows ! j)
              \<and> (\<not> worthGeocoding (photonLocation (prows ! j))
                   \<or> addressKey (photonLocation (prows ! j))
                        \<notin> succeeded (sent (photonMain svc (InputRows prows)))
                   \<longrightarrow> e_lat (bs ! j) = lat (prows ! j) \<and> e_lng (bs ! j) = lng (prows ! j))))
   \<and> (\<forall>l \<in> set (logged (photonMain svc (InputRows prows))).
         \<exists>j < length prows. \<exists>m. l = GeocodeError m
           \<and> svc j (stockholmQuery (photonLocation (prows ! j))) = PhotonThrows m)
   \<and> (addressKey (photonLocation r) \<notin> fst ` set (coordCache st)
        \<and> (\<forall>x y. svc i (stockholmQuery (photonLocation r)) \<noteq> PhotonCoord x y) \<longrightarrow>
        e_lat (last (ph_bars (photonRow svc i r st))) = lat r
        \<and> e_lng (last (ph_bars (photonRow svc i r st))) = lng r
        \<and> coordCache (photonRow svc i r st) = coordCache st)
   \<and> ph_errors (photonRow svc i r st)
       = ph_errors st
         @ (if worthGeocoding (photonLocation r) \<and> trim (photonLocation r) \<noteq> []
               \<and> coordCache st = []
            then (case svc i (stockholmQuery (photonLocation r)) of
                    PhotonThrows m \<Rightarrow> [GeocodeError m] | _ \<Rightarrow> [])
            else [])"
proof -
  have places: "apiKey \<noteq> [] \<longrightarrow>
      exit_status (placesMain f d apiKey (InputRows rows)) = 0
      \<and> csv_written (placesMain f d apiKey (InputRows rows))
      \<and> (\<exists>bs. written (placesMain f d apiKey (InputRows rows)) = Some bs
            \<and> length bs = length rows
            \<and> (\<forall>j < length rows.
                  bs ! j = placesEntry f d j (rows ! j)
                  \<and> (\<not> placeUsable (placeOf (f j (placesQuery (barNameOf (rows ! j)))))
                       \<longrightarrow> e_lat (bs ! j) = lat (rows ! j) \<and> e_lng (bs ! j) = lng (rows ! j))
                  \<and> ((\<forall>p. f j (placesQuery (barNameOf (rows ! j))) \<noteq> PlaceFound p)
                       \<longrightarrow> e_bar_name (bs ! j) = barNameOf (rows ! j)
                         \<and> e_location (bs ! j)
                             = (case placesOutAddress (rows ! j) of
                                  None \<Rightarrow> None
                                | Some a \<Rightarrow> Some (if trim a = [] then a else trim a))
                         \<and> e_lat (bs ! j) = lat (rows ! j)
                         \<and> e_lng (bs ! j) = lng (rows ! j)
                         \<and> e_vibes (bs ! j) = deriveVibes (rows ! j) None
                         \<and> e_place_id (bs ! j) = None
                         \<and> e_photo_reference (bs ! j) = None
                         \<and> e_correct_address (bs ! j) = None)))
      \<and> removeAll InvalidKeyNotice (logged (placesMain f d apiKey (InputRows rows)))
          = concat (map (\<lambda>(j, r). case f j (placesQuery (barNameOf r)) of
                                     PlaceThrows k m \<Rightarrow> [LookupError (j + 1) (barNameOf r) m]
                                   | _ \<Rightarrow> [])
                        (zip [0..<length rows] rows))
      \<and> lookups_failed (placesMain f d apiKey (InputRows rows))
          = length (removeAll InvalidKeyNotice (logged (placesMain f d apiKey (InputRows rows))))"
    using placesMain_entries [of apiKey f d rows] by (rule impI)
  have mood: "gk \<noteq> [] \<and> ok \<noteq> [] \<longrightarrow>
      exit_status (moodMain rv oa gk ok (InputRows list)) = 0
      \<and> (\<exists>bs. written (moodMain rv oa gk ok (InputRows list)) = Some bs
            \<and> length bs = length list
            \<and> (\<forall>j < length list.
                  bs ! j = storedBar (moodBar oa j (list ! j))
                  \<and> mb_name (bs ! j) = mb_name (list ! j)
                  \<and> mb_place_id (bs ! j) = mb_place_id (list ! j)
                  \<and> ((\<forall>ms. classifyBarWithOpenAI (oa j) = Inr ms \<longrightarrow> ms = [])
                       \<longrightarrow> moods (bs ! j) = fileValue (moodsOrEmpty (moods (list ! j))))))
      \<and> logged (moodMain rv oa gk ok (InputRows list))
          = concat (map (\<lambda>(j, b).
               (case nullIfFalsy (mb_place_id b) of
                  None \<Rightarrow> []
                | Some p \<Rightarrow> (case rv j p of
                               ReviewsThrows m \<Rightarrow> [PlacesWarning (j + 1) (mb_name b) m]
                             | _ \<Rightarrow> []))
               @ (case classifyBarWithOpenAI (oa j) of
                    Inl m \<Rightarrow> [OpenAIWarning (j + 1) (mb_name b) m]
                  | Inr ms \<Rightarrow> []))
             (zip [0..<length list] list))"
    using moodMain_entries [of gk ok rv oa list] by (rule impI)
  have row: "addressKey (photonLocation r) \<notin> fst ` set (coordCache st)
        \<and> (\<forall>x y. svc i (stockholmQuery (photonLocation r)) \<noteq> PhotonCoord x y) \<longrightarrow>
        e_lat (last (ph_bars (photonRow svc i r st))) = lat r
        \<and> e_lng (last (ph_bars (photonRow svc i r st))) = lng r
        \<and> coordCache (photonRow svc i r st) = coordCache st"
    using photonRow_kept [of r st svc i] photonRow_failed_cache [of svc i r st] by blast
  from places mood photonMain_entries [of svc prows] row photonRow_errors [of svc i r st]
  show ?thesis by (intro conjI) (elim conjE, assumption)+
qed

text \<open>
  Two rows of an earlier store in the Places script, the first with a lookup that
  throws, the second with a miss; two bars in the mood script, the first with both
  requests throwing, the second with a classification that finds no label; three rows
  in the Photon script, whose requests throw, find nothing and return a coordinate.
\<close>

theorem failures_do_not_abort_witness:
  "written (placesMain
        (\<lambda>i q. if i = 0 then PlaceThrows False (str ''REQUEST_DENIED'') else PlaceNone)
        (\<lambda>i p. DetailsNull) (str ''key'')
        (InputRows
          [\<lparr>correct_address = None, location = Some (str ''Hornsgatan 66''), address = None,
            bar_name = Some (str ''Kvarnen''), name = None, lat = Some (Finite 59.3172),
            lng = Some (Finite 18.0686), dance_floor = None,
            row_place_id = Some (str ''ChIJ1''), row_photo_reference = Some (str ''photo1''),
            row_vibes = Some [str ''dating'', str ''chill'']\<rparr>,
           \<lparr>correct_address = None, location = None, address = None,
            bar_name = Some (str ''Bar 2''), name = None, lat = None, lng = None,
            dance_floor = Some (str ''yes''),
            row_place_id = None, row_photo_reference = None, row_vibes = None\<rparr>]))
     = Some [\<lparr>e_bar_name = str ''Kvarnen'', e_location = Some (str ''Hornsgatan 66''),
              e_lat = Some (Finite 59.3172), e_lng = Some (Finite 18.0686),
              e_correct_address = None, e_place_id = None, e_photo_reference = None,
              e_vibes = [str ''chill'']\<rparr>,
             \<lparr>e_bar_name = str ''Bar 2'', e_location = None, e_lat = None, e_lng = None,
              e_correct_address = None, e_place_id = None, e_photo_reference = None,
              e_vibes = [str ''party'', str ''girls-night'']\<rparr>]
   \<and> logged (placesMain
        (\<lambda>i q. if i = 0 then PlaceThrows False (str ''REQUEST_DENIED'') else PlaceNone)
        (\<lambda>i p. DetailsNull) (str ''key'')
        (InputRows
          [\<lparr>correct_address = None, location = Some (str ''Hornsgatan 66''), address = None,
            bar_name = Some (str ''Kvarnen''), name = None, lat = Some (Finite 59.3172),
            lng = Some (Finite 18.0686), dance_floor = None,
            row_place_id = Some (str ''ChIJ1''), row_photo_reference = Some (str ''photo1''),
            row_vibes = Some [str ''dating'', str ''chill'']\<rparr>,
           \<lparr>correct_address = None, location = None, address = None,
            bar_name = Some (str ''Bar 2''), name = None, lat = None, lng = None,
            dance_floor = Some (str ''yes''),
            row_place_id = None, row_photo_reference = None, row_vibes = None\<rparr>]))
     = [LookupError 1 (str ''Kvarnen'') (str ''REQUEST_DENIED'')]
   \<and> written (moodMain (\<lambda>i p. ReviewsThrows (str ''timeout''))
          (\<lambda>i. if i = 0 then OpenAIThrows (str ''OpenAI 500'') else OpenAINoArray)
          (str ''g'') (str ''o'')
          (InputRows
            [\<lparr>mb_name = str ''Kvarnen'', mb_place_id = Some (str ''ChIJ1''),
              moods = JArr [JStr (str ''chill_date'')]\<rparr>,
             \<lparr>mb_name = str ''Bar 2'', mb_place_id = None, moods = JUndefined\<rparr>]))
     = Some [\<lparr>mb_name = str ''Kvarnen'', mb_place_id = Some (str ''ChIJ1''),
              moods = JArr [JStr (str ''chill_date'')]\<rparr>,
             \<lparr>mb_name = str ''Bar 2'', mb_place_id = None, moods = JArr []\<rparr>]
   \<and> logged (moodMain (\<lambda>i p. ReviewsThrows (str ''timeout''))
          (\<lambda>i. if i = 0 then OpenAIThrows (str ''OpenAI 500'') else OpenAINoArray)
          (str ''g'') (str ''o'')
          (InputRows
            [\<lparr>mb_name = str ''Kvarnen'', mb_place_id = Some (str ''ChIJ1''),
              moods = JArr [JStr (str ''chill_date'')]\<rparr>,
             \<lparr>mb_name = str ''Bar 2'', mb_place_id = None, moods = JUndefined\<rparr>]))
     = [PlacesWarning 1 (str ''Kvarnen'') (str ''timeout''),
        OpenAIWarning 1 (str ''Kvarnen'') (str ''OpenAI 500'')]
   \<and> written (photonMain
        (\<lambda>i q. if i = 0 then PhotonThrows (str ''fetch failed'')
               else if i = 1 then PhotonNoResult
               else PhotonCoord (Finite 18.05) (Finite 59.32))
        (InputRows
          [\<lparr>correct_address = None, location = Some (str ''Hornsgatan 66''), address = None,
            bar_name = Some (str ''Kvarnen''), name = None, lat = Some (Finite 59.3172),
            lng = Some (Finite 18.0686), dance_floor = None\<rparr>,
           \<lparr>correct_address = None, location = Some (str ''Folkungagatan 1''), address = None,
            bar_name = Some (str ''Bar 2''), name = None, lat = None, lng = None,
            dance_floor = None\<rparr>,
           \<lparr>correct_address = None, location = Some (str ''Hornsgatan 66''), address = None,
            bar_name = Some (str ''Bar 3''), name = None, lat = None, lng = None,
            dance_floor = None\<rparr>]))
     = Some [\<lparr>e_bar_name = str ''Kvarnen'', e_location = Some (str ''Hornsgatan 66''),
              e_lat = Some (Finite 59.3172), e_lng = Some (Finite 18.0686),
              e_correct_address = None\<rparr>,
             \<lparr>e_bar_name = str ''Bar 2'', e_location = Some (str ''Folkungagatan 1''),
              e_lat = None, e_lng = None, e_correct_address = None\<rparr>,
             \<lparr>e_bar_name = str ''Bar 3'', e_location = Some (str ''Hornsgatan 66''),
              e_lat = Some (Finite 59.32), e_lng = Some (Finite 18.05),
              e_correct_address = None\<rparr>]
   \<and> logged (photonMain
        (\<lambda>i q. if i = 0 then PhotonThrows (str ''fetch failed'')
               else if i = 1 then PhotonNoResult
               else PhotonCoord (Finite 18.05) (Finite 59.32))
        (InputRows
          [\<lparr>correct_address = None, location = Some (str ''Hornsgatan 66''), address = None,
            bar_name = Some (str ''Kvarnen''), name = None, lat = Some (Finite 59.3172),
            lng = Some (Finite 18.0686), dance_floor = None\<rparr>,
           \<lparr>correct_address = None, location = Some (str ''Folkungagatan 1''), address = None,
            bar_name = Some (str ''Bar 2''), name = None, lat = None, lng = None,
            dance_floor = None\<rparr>,
           \<lparr>correct_address = None, location = Some (str ''Hornsgatan 66''), address = None,
            bar_name = Some (str ''Bar 3''), name = None, lat = None, lng = None,
            dance_floor = None\<rparr>]))
     = [GeocodeError (str ''fetch failed'')]
   \<and> coordCache (photonRow
        (\<lambda>i q. if i = 0 then PhotonThrows (str ''fetch failed'')
               else if i = 1 then PhotonNoResult
               else PhotonCoord (Finite 18.05) (Finite 59.32)) 0
        \<lparr>correct_address = None, location = Some (str ''Hornsgatan 66''), address = None,
         bar_name = Some (str ''Kvarnen''), name = None, lat = Some (Finite 59.3172),
         lng = Some (Finite 18.0686), dance_floor = None\<rparr>
        \<lparr>coordCache = [], ph_bars = [], ph_requests = [], ph_errors = []\<rparr>)
     = []
   \<and> ph_errors (photonRow
        (\<lambda>i q. if i = 0 then PhotonThrows (str ''fetch failed'')
               else if i = 1 then PhotonNoResult
               else PhotonCoord (Finite 18.05) (Finite 59.32)) 0
        \<lparr>correct_address = None, location = Some (str ''Hornsgatan 66''), address = None,
         bar_name = Some (str ''Kvarnen''), name = None, lat = Some (Finite 59.3172),
         lng = Some (Finite 18.0686), dance_floor = None\<rparr>
        \<lparr>coordCache = [], ph_bars = [], ph_requests = [], ph_errors = []\<rparr>)
     = [GeocodeError (str ''fetch failed'')]"
proof -
  note run = failures_do_not_abort
    [where apiKey = "str ''key''"
       and f = "\<lambda>i q. if i = 0 then PlaceThrows False (str ''REQUEST_DENIED'') else PlaceNone"
       and d = "\<lambda>i p. DetailsNull"
       and rows = "[\<lparr>correct_address = None, location = Some (str ''Hornsgatan 66''), address = None,
            bar_name = Some (str ''Kvarnen''), name = None, lat = Some (Finite 59.3172),
            lng = Some (Finite 18.0686), dance_floor = None,
            row_place_id = Some (str ''ChIJ1''), row_photo_reference = Some (str ''photo1''),
            row_vibes = Some [str ''dating'', str ''chill'']\<rparr>,
           \<lparr>correct_address = None, location = None, address = None,
            bar_name = Some (str ''Bar 2''), name = None, lat = None, lng = None,
            dance_floor = Some (str ''yes''),
            row_place_id = None, row_photo_reference = None, row_vibes = None\<rparr>]"
       and gk = "str ''g''" and ok = "str ''o''"
       and rv = "\<lambda>i p. ReviewsThrows (str ''timeout'')"
       and oa = "\<lambda>i. if i = 0 then OpenAIThrows (str ''OpenAI 500'') else OpenAINoArray"
       and list = "[\<lparr>mb_name = str ''Kvarnen'', mb_place_id = Some (str ''ChIJ1''),
              moods = JArr [JStr (str ''chill_date'')]\<rparr>,
             \<lparr>mb_name = str ''Bar 2'', mb_place_id = None, moods = JUndefined\<rparr>]"
       and svc = "\<lambda>i q. if i = 0 then PhotonThrows (str ''fetch failed'')
               else if i = 1 then PhotonNoResult
               else PhotonCoord (Finite 18.05) (Finite 59.32)"
       and prows = "[\<lparr>correct_address = None, location = Some (str ''Hornsgatan 66''), address = None,
            bar_name = Some (str ''Kvarnen''), name = None, lat = Some (Finite 59.3172),
            lng = Some (Finite 18.0686), dance_floor = None\<rparr>,
           \<lparr>correct_address = None, location = Some (str ''Folkungagatan 1''), address = None,
            bar_name = Some (str ''Bar 2''), name = None, lat = None, lng = None,
            dance_floor = None\<rparr>,
           \<lparr>correct_address = None, location = Some (str ''Hornsgatan 66''), address = None,
            bar_name = Some (str ''Bar 3''), name = None, lat = None, lng = None,
            dance_floor = None\<rparr>]"
       and r = "\<lparr>correct_address = None, location = Some (str ''Hornsgatan 66''), address = None,
            bar_name = Some (str ''Kvarnen''), name = None, lat = Some (Finite 59.3172),
            lng = Some (Finite 18.0686), dance_floor = None\<rparr>"
       and st = "\<lparr>coordCache = [], ph_bars = [], ph_requests = [], ph_errors = []\<rparr>"
       and i = 0]
  have p: "written (placesMain
        (\<lambda>i q. if i = 0 then PlaceThrows False (str ''REQUEST_DENIED'') else PlaceNone)
        (\<lambda>i p. DetailsNull) (str ''key'')
        (InputRows
          [\<lparr>correct_address = None, location = Some (str ''Hornsgatan 66''), address = None,
            bar_name = Some (str ''Kvarnen''), name = None, lat = Some (Finite 59.3172),
            lng = Some (Finite 18.0686), dance_floor = None,
            row_place_id = Some (str ''ChIJ1''), row_photo_reference = Some (str ''photo1''),
            row_vibes = Some [str ''dating'', str ''chill'']\<rparr>,
           \<lparr>correct_address = None, location = None, address = None,
            bar_name = Some (str ''Bar 2''), name = None, lat = None, lng = None,
            dance_floor = Some (str ''yes''),
            row_place_id = None, row_photo_reference = None, row_vibes = None\<rparr>]))
     = Some [\<lparr>e_bar_name = str ''Kvarnen'', e_location = Some (str ''Hornsgatan 66''),
              e_lat = Some (Finite 59.3172), e_lng = Some (Finite 18.0686),
              e_correct_address = None, e_place_id = None, e_photo_reference = None,
              e_vibes = [str ''chill'']\<rparr>,
             \<lparr>e_bar_name = str ''Bar 2'', e_location = None, e_lat = None, e_lng = None,
              e_correct_address = None, e_place_id = None, e_photo_reference = None,
              e_vibes = [str ''party'', str ''girls-night'']\<rparr>]
   \<and> logged (placesMain
        (\<lambda>i q. if i = 0 then PlaceThrows False (str ''REQUEST_DENIED'') else PlaceNone)
        (\<lambda>i p. DetailsNull) (str ''key'')
        (InputRows
          [\<lparr>correct_address = None, location = Some (str ''Hornsgatan 66''), address = None,
            bar_name = Some (str ''Kvarnen''), name = None, lat = Some (Finite 59.3172),
            lng = Some (Finite 18.0686), dance_floor = None,
            row_place_id = Some (str ''ChIJ1''), row_photo_reference = Some (str ''photo1''),
            row_vibes = Some [str ''dating'', str ''chill'']\<rparr>,
           \<lparr>correct_address = None, location = None, address = None,
            bar_name = Some (str ''Bar 2''), name = None, lat = None, lng = None,
            dance_floor = Some (str ''yes''),
            row_place_id = None, row_photo_reference = None, row_vibes = None\<rparr>]))
     = [LookupError 1 (str ''Kvarnen'') (str ''REQUEST_DENIED'')]"
    using run [THEN conjunct1]
    by (simp add: places_eval mood_eval photon_eval js_eval storedBar_def fileValue_def
        succeeded_def str_simps units string_ops)
  have m: "written (moodMain (\<lambda>i p. ReviewsThrows (str ''timeout''))
          (\<lambda>i. if i = 0 then OpenAIThrows (str ''OpenAI 500'') else OpenAINoArray)
          (str ''g'') (str ''o'')
          (InputRows
            [\<lparr>mb_name = str ''Kvarnen'', mb_place_id = Some (str ''ChIJ1''),
              moods = JArr [JStr (str ''chill_date'')]\<rparr>,
             \<lparr>mb_name = str ''Bar 2'', mb_place_id = None, moods = JUndefined\<rparr>]))
     = Some [\<lparr>mb_name = str ''Kvarnen'', mb_place_id = Some (str ''ChIJ1''),
              moods = JArr [JStr (str ''chill_date'')]\<rparr>,
             \<lparr>mb_name = str ''Bar 2'', mb_place_id = None, moods = JArr []\<rparr>]
   \<and> logged (moodMain (\<lambda>i p. ReviewsThrows (str ''timeout''))
          (\<lambda>i. if i = 0 then OpenAIThrows (str ''OpenAI 500'') else OpenAINoArray)
          (str ''g'') (str ''o'')
          (InputRows
            [\<lparr>mb_name = str ''Kvarnen'', mb_place_id = Some (str ''ChIJ1''),
              moods = JArr [JStr (str ''chill_date'')]\<rparr>,
             \<lparr>mb_name = str ''Bar 2'', mb_place_id = None, moods = JUndefined\<rparr>]))
     = [PlacesWarning 1 (str ''Kvarnen'') (str ''timeout''),
        OpenAIWarning 1 (str ''Kvarnen'') (str ''OpenAI 500'')]"
    using run [THEN conjunct2, THEN conjunct1]
    by (simp add: places_eval mood_eval photon_eval js_eval storedBar_def fileValue_def
        succeeded_def str_simps units string_ops)
  have w: "written (photonMain
        (\<lambda>i q. if i = 0 then PhotonThrows (str ''fetch failed'')
               else if i = 1 then PhotonNoResult
               else PhotonCoord (Finite 18.05) (Finite 59.32))
        (InputRows
          [\<lparr>correct_address = None, location = Some (str ''Hornsgatan 66''), address = None,
            bar_name = Some (str ''Kvarnen''), name = None, lat = Some (Finite 59.3172),
            lng = Some (Finite 18.0686), dance_floor = None\<rparr>,
           \<lparr>correct_address = None, location = Some (str ''Folkungagatan 1''), address = None,
            bar_name = Some (str ''Bar 2''), name = None, lat = None, lng = None,
            dance_floor = None\<rparr>,
           \<lparr>correct_address = None, location = Some (str ''Hornsgatan 66''), address = None,
            bar_name = Some (str ''Bar 3''), name = None, lat = None, lng = None,
            dance_floor = None\<rparr>]))
     = Some [\<lparr>e_bar_name = str ''Kvarnen'', e_location = Some (str ''Hornsgatan 66''),
              e_lat = Some (Finite 59.3172), e_lng = Some (Finite 18.0686),
              e_correct_address = None\<rparr>,
             \<lparr>e_bar_name = str ''Bar 2'', e_location = Some (str ''Folkungagatan 1''),
              e_lat = None, e_lng = None, e_correct_address = None\<rparr>,
             \<lparr>e_bar_name = str ''Bar 3'', e_location = Some (str ''Hornsgatan 66''),
              e_lat = Some (Finite 59.32), e_lng = Some (Finite 18.05),
              e_correct_address = None\<rparr>]"
    using run [THEN conjunct2, THEN conjunct2, THEN conjunct2, THEN conjunct1]
    by (simp add: places_eval mood_eval photon_eval js_eval storedBar_def fileValue_def
        succeeded_def str_simps units string_ops)
  have l: "logged (photonMain
        (\<lambda>i q. if i = 0 then PhotonThrows (str ''fetch failed'')
               else if i = 1 then PhotonNoResult
               else PhotonCoord (Finite 18.05) (Finite 59.32))
        (InputRows
          [\<lparr>correct_address = None, location = Some (str ''Hornsgatan 66''), address = None,
            bar_name = Some (str ''Kvarnen''), name = None, lat = Some (Finite 59.3172),
            lng = Some (Finite 18.0686), dance_floor = None\<rparr>,
           \<lparr>correct_address = None, location = Some (str ''Folkungagatan 1''), address = None,
            bar_name = Some (str ''Bar 2''), name = None, lat = None, lng = None,
            dance_floor = None\<rparr>,
           \<lparr>correct_address = None, location = Some (str ''Hornsgatan 66''), address = None,
            bar_name = Some (str ''Bar 3''), name = None, lat = None, lng = None,
            dance_floor = None\<rparr>]))
     = [GeocodeError (str ''fetch failed'')]"
    using run [THEN conjunct2, THEN conjunct2, THEN conjunct2, THEN conjunct2, THEN conjunct1]
    by (simp add: places_eval mood_eval photon_eval js_eval storedBar_def fileValue_def
        succeeded_def str_simps units string_ops)
  have c: "coordCache (photonRow
        (\<lambda>i q. if i = 0 then PhotonThrows (str ''fetch failed'')
               else if i = 1 then PhotonNoResult
               else PhotonCoord (Finite 18.05) (Finite 59.32)) 0
        \<lparr>correct_address = None, location = Some (str ''Hornsgatan 66''), address = None,
         bar_name = Some (str ''Kvarnen''), name = None, lat = Some (Finite 59.3172),
         lng = Some (Finite 18.0686), dance_floor = None\<rparr>
        \<lparr>coordCache = [], ph_bars = [], ph_requests = [], ph_errors = []\<rparr>)
     = []"
    using run [THEN conjunct2, THEN conjunct2, THEN conjunct2, THEN conjunct2, THEN conjunct2, THEN conjunct1]
    by (simp add: places_eval mood_eval photon_eval js_eval storedBar_def fileValue_def
        succeeded_def str_simps units string_ops)
  have e: "ph_errors (photonRow
        (\<lambda>i q. if i = 0 then PhotonThrows (str ''fetch failed'')
               else if i = 1 then PhotonNoResult
               else PhotonCoord (Finite 18.05) (Finite 59.32)) 0
        \<lparr>correct_address = None, location = Some (str ''Hornsgatan 66''), address = None,
         bar_name = Some (str ''Kvarnen''), name = None, lat = Some (Finite 59.3172),
         lng = Some (Finite 18.0686), dance_floor = None\<rparr>
        \<lparr>coordCache = [], ph_bars = [], ph_requests = [], ph_errors = []\<rparr>)
     = [GeocodeError (str ''fetch failed'')]"
    using run [THEN conjunct2, THEN conjunct2, THEN conjunct2, THEN conjunct2, THEN conjunct2, THEN conjunct2]
    by (simp add: places_eval mood_eval photon_eval js_eval storedBar_def fileValue_def
        succeeded_def str_simps units string_ops)
  from p m w l c e show ?thesis by (intro conjI) (elim conjE, assumption)+
qed


section \<open>Coordinates across enrichment passes (C6)\<close>

lemma photonRow_overwrites:
  assumes "worthGeocoding (photonLocation r)" "trim (photonLocation r) \<noteq> []"
    "addressKey (photonLocation r) \<notin> fst ` set (coordCache st)"
    "svc i (stockholmQuery (photonLocation r)) = PhotonCoord x y"
  shows "e_lat (last (ph_bars (photonRow svc i r st))) = Some y
       \<and> e_lng (last (ph_bars (photonRow svc i r st))) = Some x"
proof -
  from assms(1) have "photonLocation r \<noteq> []" "\<not> isNullWord (photonLocation r)"
    by (simp_all add: worthGeocoding_def)
  with assms(2,4)
  have "geocodePhoton (svc i) (photonLocation r) (coordCache st = []) = (Some (x, y), True, [])"
    by (simp add: geocodePhoton_def)
  with assms(1,3) show ?thesis
    by (simp add: photonRow_def Let_def map_of_fresh map_add_def)
qed

text \<open>
  C6, as stated, fails in the Photon script: a row that comes with coordinates that
  are not the placeholder is given whatever the lookup returns, here the placeholder
  of the city centre itself.
\<close>

theorem good_coordinates_overwritten:
  "written (photonMain (\<lambda>i q. PhotonCoord (Finite 18.06745) (Finite 59.31667))
      (InputRows [\<lparr>correct_address = None, location = Some (str ''Hornsgatan 66''),
                   address = None, bar_name = Some (str ''Kvarnen''), name = None,
                   lat = Some (Finite 59.3172), lng = Some (Finite 18.0686),
                   dance_floor = None\<rparr>]))
     = Some [\<lparr>e_bar_name = str ''Kvarnen'', e_location = Some (str ''Hornsgatan 66''),
              e_lat = Some (Finite 59.31667), e_lng = Some (Finite 18.06745),
              e_correct_address = None\<rparr>]
   \<and> isPlaceholder (Some (Finite 59.31667)) (Some (Finite 18.06745))
   \<and> \<not> isPlaceholder (Some (Finite 59.3172)) (Some (Finite 18.0686))"
  by (simp add: photon_eval js_eval isPlaceholder_def str_simps units string_ops)

text \<open>
  C6, amended. No script replaces the coordinates of a row when its lookup threw or
  found nothing: the entry written has the row's own \<open>lat\<close> and \<open>lng\<close>. The Mapbox
  variant sends no lookup at all, and keeps the coordinates, for a row whose \<open>lat\<close>
  and \<open>lng\<close> are both truthy and not the placeholder (59.31667, 18.06745). The Places
  script and the Photon script replace the coordinates by those of every usable lookup
  result, whatever the row had.
\<close>

theorem coordinates_kept_without_result:
  "(token \<noteq> [] \<longrightarrow>
      (\<exists>bs. written (mapboxMain msvc token (InputRows rows)) = Some bs
         \<and> length bs = length rows
         \<and> (\<forall>j < length rows.
              (\<not> falsyCoord (lat (rows ! j)) \<and> \<not> falsyCoord (lng (rows ! j))
                 \<and> \<not> isPlaceholder (lat (rows ! j)) (lng (rows ! j))
               \<longrightarrow> mapboxLookup msvc token j (rows ! j) = (None, False)
                 \<and> e_lat (bs ! j) = lat (rows ! j) \<and> e_lng (bs ! j) = lng (rows ! j))
            \<and> ((\<forall>x y. msvc j (stockholmQuery (cleanAddress (orEmpty (location (rows ! j)))))
                         \<noteq> MapboxCenter x y)
               \<longrightarrow> e_lat (bs ! j) = lat (rows ! j) \<and> e_lng (bs ! j) = lng (rows ! j)))))
   \<and> (apiKey \<noteq> [] \<longrightarrow>
      (\<exists>bs. written (placesMain f d apiKey (InputRows rows)) = Some bs
         \<and> length bs = length rows
         \<and> (\<forall>j < length rows.
              (\<not> placeUsable (placeOf (f j (placesQuery (barNameOf (rows ! j)))))
               \<longrightarrow> e_lat (bs ! j) = lat (rows ! j) \<and> e_lng (bs ! j) = lng (rows ! j))
            \<and> (\<forall>p. placeOf (f j (placesQuery (barNameOf (rows ! j)))) = Some p
                      \<and> placeUsable (Some p)
               \<longrightarrow> e_lat (bs ! j) = p_lat p \<and> e_lng (bs ! j) = p_lng p))))
   \<and> (addressKey (photonLocation r) \<notin> fst ` set (coordCache st)
        \<and> (\<forall>x y. svc i (stockholmQuery (photonLocation r)) \<noteq> PhotonCoord x y)
      \<longrightarrow> e_lat (last (ph_bars (photonRow svc i r st))) = lat r
        \<and> e_lng (last (ph_bars (photonRow svc i r st))) = lng r)
   \<and> (worthGeocoding (photonLocation r') \<and> trim (photonLocation r') \<noteq> []
        \<and> addressKey (photonLocation r') \<notin> fst ` set (coordCache st')
        \<and> svc' i' (stockholmQuery (photonLocation r')) = PhotonCoord x y
      \<longrightarrow> e_lat (last (ph_bars (photonRow svc' i' r' st'))) = Some y
        \<and> e_lng (last (ph_bars (photonRow svc' i' r' st'))) = Some x)"
proof -
  have mapbox: "\<exists>bs. written (mapboxMain msvc token (InputRows rows)) = Some bs
         \<and> length bs = length rows
         \<and> (\<forall>j < length rows.
              (\<not> falsyCoord (lat (rows ! j)) \<and> \<not> falsyCoord (lng (rows ! j))
                 \<and> \<not> isPlaceholder (lat (rows ! j)) (lng (rows ! j))
               \<longrightarrow> mapboxLookup msvc token j (rows ! j) = (None, False)
                 \<and> e_lat (bs ! j) = lat (rows ! j) \<and> e_lng (bs ! j) = lng (rows ! j))
            \<and> ((\<forall>x y. msvc j (stockholmQuery (cleanAddress (orEmpty (location (rows ! j)))))
                         \<noteq> MapboxCenter x y)
               \<longrightarrow> e_lat (bs ! j) = lat (rows ! j) \<and> e_lng (bs ! j) = lng (rows ! j)))"
    if k: "token \<noteq> []"
  proof -
    let ?bs = "map (\<lambda>(j, r). mapboxEntry msvc token j r) (zip [0..<length rows] rows)"
    have w: "written (mapboxMain msvc token (InputRows rows)) = Some ?bs"
      using k by (rule mapboxMain_written)
    have n: "?bs ! j = mapboxEntry msvc token j (rows ! j)" if "j < length rows" for j
      using that indexed_nth [of j rows "mapboxEntry msvc token" 0] by simp
    have "\<forall>j < length rows.
              (\<not> falsyCoord (lat (rows ! j)) \<and> \<not> falsyCoord (lng (rows ! j))
                 \<and> \<not> isPlaceholder (lat (rows ! j)) (lng (rows ! j))
               \<longrightarrow> mapboxLookup msvc token j (rows ! j) = (None, False)
                 \<and> e_lat (?bs ! j) = lat (rows ! j) \<and> e_lng (?bs ! j) = lng (rows ! j))
            \<and> ((\<forall>x y. msvc j (stockholmQuery (cleanAddress (orEmpty (location (rows ! j)))))
                         \<noteq> MapboxCenter x y)
               \<longrightarrow> e_lat (?bs ! j) = lat (rows ! j) \<and> e_lng (?bs ! j) = lng (rows ! j))"
      using n mapboxEntry_good_kept [of _ msvc token] mapboxEntry_miss_kept [of msvc _ _ token]
      by metis
    with w show ?thesis by simp
  qed
  have places: "\<exists>bs. written (placesMain f d apiKey (InputRows rows)) = Some bs
         \<and> length bs = length rows
         \<and> (\<forall>j < length rows.
              (\<not> placeUsable (placeOf (f j (placesQuery (barNameOf (rows ! j)))))
               \<longrightarrow> e_lat (bs ! j) = lat (rows ! j) \<and> e_lng (bs ! j) = lng (rows ! j))
            \<and> (\<forall>p. placeOf (f j (placesQuery (barNameOf (rows ! j)))) = Some p
                      \<and> placeUsable (Some p)
               \<longrightarrow> e_lat (bs ! j) = p_lat p \<and> e_lng (bs ! j) = p_lng p))"
    if k: "apiKey \<noteq> []"
  proof -
    let ?bs = "map (\<lambda>(j, r). placesEntry f d j r) (zip [0..<length rows] rows)"
    have w: "written (placesMain f d apiKey (InputRows rows)) = Some ?bs"
      using k by (rule placesMain_written)
    have n: "?bs ! j = placesEntry f d j (rows ! j)" if "j < length rows" for j
      using that indexed_nth [of j rows "placesEntry f d" 0] by simp
    have "\<forall>j < length rows.
              (\<not> placeUsable (placeOf (f j (placesQuery (barNameOf (rows ! j)))))
               \<longrightarrow> e_lat (?bs ! j) = lat (rows ! j) \<and> e_lng (?bs ! j) = lng (rows ! j))
            \<and> (\<forall>p. placeOf (f j (placesQuery (barNameOf (rows ! j)))) = Some p
                      \<and> placeUsable (Some p)
               \<longrightarrow> e_lat (?bs ! j) = p_lat p \<and> e_lng (?bs ! j) = p_lng p)"
      using n placesEntry_keeps [of f _ _ d] placesEntry_overwrites [of f _ _ _ d] by metis
    with w show ?thesis by simp
  qed
  from mapbox places photonRow_kept [of r st svc i] photonRow_overwrites [of r' st' svc' i' x y]
  show ?thesis by blast
qed

text \<open>
  A row with good coordinates: kept by the Mapbox variant although the service would
  answer, kept by the Places script and the Photon script when the lookup fails, and
  replaced by the Photon script when the lookup answers.
\<close>

theorem coordinates_kept_without_result_witness:
  "map_option (map (\<lambda>e. (e_lat e, e_lng e)))
     (written (mapboxMain (\<lambda>i q. MapboxCenter (Finite 18.06745) (Finite 59.31667)) (str ''tk'')
        (InputRows
          [\<lparr>correct_address = None, location = Some (str ''Hornsgatan 66''), address = None,
            bar_name = Some (str ''Kvarnen''), name = None, lat = Some (Finite 59.3172),
            lng = Some (Finite 18.0686), dance_floor = None\<rparr>])))
     = Some [(Some (Finite 59.3172), Some (Finite 18.0686))]
   \<and> map_option (map (\<lambda>e. (e_lat e, e_lng e)))
       (written (placesMain (\<lambda>i q. PlaceNone) (\<lambda>i p. DetailsNull) (str ''key'')
          (InputRows
            [\<lparr>correct_address = None, location = Some (str ''Hornsgatan 66''), address = None,
              bar_name = Some (str ''Kvarnen''), name = None, lat = Some (Finite 59.3172),
              lng = Some (Finite 18.0686), dance_floor = None\<rparr>])))
     = Some [(Some (Finite 59.3172), Some (Finite 18.0686))]
   \<and> e_lat (last (ph_bars (photonRow (\<lambda>i q. PhotonThrows (str ''fetch failed'')) 0
        \<lparr>correct_address = None, location = Some (str ''Hornsgatan 66''), address = None,
         bar_name = Some (str ''Kvarnen''), name = None, lat = Some (Finite 59.3172),
         lng = Some (Finite 18.0686), dance_floor = None\<rparr>
        \<lparr>coordCache = [], ph_bars = [], ph_requests = [], ph_errors = []\<rparr>)))
     = Some (Finite 59.3172)
   \<and> e_lat (last (ph_bars (photonRow (\<lambda>i q. PhotonCoord (Finite 18.06745) (Finite 59.31667)) 0
        \<lparr>correct_address = None, location = Some (str ''Hornsgatan 66''), address = None,
         bar_name = Some (str ''Kvarnen''), name = None, lat = Some (Finite 59.3172),
         lng = Some (Finite 18.0686), dance_floor = None\<rparr>
        \<lparr>coordCache = [], ph_bars = [], ph_requests = [], ph_errors = []\<rparr>)))
     = Some (Finite 59.31667)"
  using coordinates_kept_without_result
    [of "str ''tk''" "\<lambda>i q. MapboxCenter (Finite 18.06745) (Finite 59.31667)"
        "[\<lparr>correct_address = None, location = Some (str ''Hornsgatan 66''), address = None,
           bar_name = Some (str ''Kvarnen''), name = None, lat = Some (Finite 59.3172),
           lng = Some (Finite 18.0686), dance_floor = None\<rparr>]"
        "str ''key''" "\<lambda>i q. PlaceNone" "\<lambda>i p. DetailsNull"
        "\<lparr>correct_address = None, location = Some (str ''Hornsgatan 66''), address = None,
          bar_name = Some (str ''Kvarnen''), name = None, lat = Some (Finite 59.3172),
          lng = Some (Finite 18.0686), dance_floor = None\<rparr>"
        "\<lparr>coordCache = [], ph_bars = [], ph_requests = [], ph_errors = []\<rparr>"
        "\<lambda>i q. PhotonThrows (str ''fetch failed'')" 0
        "\<lparr>correct_address = None, location = Some (str ''Hornsgatan 66''), address = None,
          bar_name = Some (str ''Kvarnen''), name = None, lat = Some (Finite 59.3172),
          lng = Some (Finite 18.0686), dance_floor = None\<rparr>"
        "\<lparr>coordCache = [], ph_bars = [], ph_requests = [], ph_errors = []\<rparr>"
        "\<lambda>i q. PhotonCoord (Finite 18.06745) (Finite 59.31667)" 0
        "Finite 18.06745" "Finite 59.31667"]
  by (simp add: mapbox_eval places_eval photon_eval js_eval str_simps units string_ops)

end
